theory Spec2Isabelle
  imports Complex_Main "HOL-Library.Monad_Syntax" "HOL-Library.Word" "HOL-Library.Log_Nat"
begin

section \<open>JavaScript numbers\<close>

text \<open>
  A JavaScript number is an IEEE 754 binary64 value: NaN, an infinity, or a finite value.
  \<open>Fin r\<close> is the finite value \<open>r\<close>; it is a double when \<open>roundDouble r = Fin r\<close>.
  The two zeros are not told apart: no operation modelled here distinguishes them.
\<close>

datatype double = DNaN | NegInf | Fin rat | PosInf

definition pow2 :: "int \<Rightarrow> rat" where
  "pow2 e = (if 0 \<le> e then 2 ^ nat e else 1 / 2 ^ nat (- e))"

text \<open>The exponent \<open>e\<close> of a positive rational \<open>r\<close>: \<open>2^e \<le> r < 2^(e+1)\<close>.\<close>

definition exponentOf :: "rat \<Rightarrow> int" where
  "exponentOf r =
     (let (a, b) = quotient_of r;
          e = bitlen a - bitlen b
      in if pow2 e \<le> r then e else e - 1)"

definition roundTiesToEven :: "rat \<Rightarrow> int" where
  "roundTiesToEven r =
     (let n = \<lfloor>r\<rfloor>; d = r - of_int n
      in if d < 1 / 2 then n else if 1 / 2 < d then n + 1 else if even n then n else n + 1)"

text \<open>
  Rounding to the nearest double, ties to even: \<open>m\<close> is the significand of 53 bits,
  the least exponent is -1022 (below it the subnormal numbers, multiples of \<open>2^-1074\<close>),
  \<open>e'\<close> is the exponent of the rounded value, and from \<open>2^1024\<close> on the result is an
  infinity.
\<close>

definition roundDouble :: "rat \<Rightarrow> double" where
  "roundDouble r =
     (if r = 0 then Fin 0
      else
        let a = \<bar>r\<bar>;
            e = max (exponentOf a) (- 1022);
            ulp = pow2 (e - 52);
            m = roundTiesToEven (a / ulp);
            e' = (if m = 2 ^ 53 then e + 1 else e)
        in if 1024 \<le> e' then (if r < 0 then NegInf else PosInf)
           else Fin (if r < 0 then - (of_int m * ulp) else of_int m * ulp))"

definition negate :: "double \<Rightarrow> double" where
  "negate x = (case x of DNaN \<Rightarrow> DNaN | NegInf \<Rightarrow> PosInf | PosInf \<Rightarrow> NegInf
               | Fin a \<Rightarrow> Fin (- a))"

text \<open>The operators \<open>+\<close>, \<open>-\<close>, \<open>\<le>\<close> and \<open><\<close> of JavaScript on doubles.\<close>

instantiation double :: "{zero, plus, minus, ord}"
begin

definition zero_double :: double where
  "zero_double = Fin 0"

fun plus_double :: "double \<Rightarrow> double \<Rightarrow> double" where
  "plus_double DNaN y = DNaN"
| "plus_double x DNaN = DNaN"
| "plus_double PosInf NegInf = DNaN"
| "plus_double NegInf PosInf = DNaN"
| "plus_double PosInf y = PosInf"
| "plus_double x PosInf = PosInf"
| "plus_double NegInf y = NegInf"
| "plus_double x NegInf = NegInf"
| "plus_double (Fin a) (Fin b) = roundDouble (a + b)"

definition minus_double :: "double \<Rightarrow> double \<Rightarrow> double" where
  "minus_double x y = x + negate y"

fun less_eq_double :: "double \<Rightarrow> double \<Rightarrow> bool" where
  "less_eq_double DNaN y = False"
| "less_eq_double x DNaN = False"
| "less_eq_double NegInf y = True"
| "less_eq_double x PosInf = True"
| "less_eq_double PosInf y = False"
| "less_eq_double x NegInf = False"
| "less_eq_double (Fin a) (Fin b) = (a \<le> b)"

fun less_double :: "double \<Rightarrow> double \<Rightarrow> bool" where
  "less_double DNaN y = False"
| "less_double x DNaN = False"
| "less_double PosInf y = False"
| "less_double x NegInf = False"
| "less_double NegInf y = True"
| "less_double x PosInf = True"
| "less_double (Fin a) (Fin b) = (a < b)"

instance ..

end

text \<open>\<open>Number.isNaN(x)\<close>: NaN is the one number that is not \<open>\<le>\<close> itself.\<close>

definition isNaN :: "'n::ord \<Rightarrow> bool" where
  "isNaN x = (\<not> x \<le> x)"

section \<open>Enums and the Order model (backend/models/Order.js)\<close>


datatype side_t = BUY | SELL

datatype order_type = LIMIT | MARKET | STOP_LOSS | STOP_LIMIT

datatype tif = GTC | IOC | FOK | POST_ONLY

datatype status_t = PENDING | PARTIAL | FILLED | CANCELLED | REJECTED | EXPIRED | TRIGGERED

record 'n execution_of =
  exAmount :: 'n
  exPrice :: "'n option"
  counterparty :: "string option"
  exTimestamp :: nat
  exBatchId :: "string option"
  exOfferAmount :: "'n option"
  exReceiveAmount :: "'n option"

type_synonym execution = "rat execution_of"

record trade =
  tradePrice :: rat
  tradeAmount :: rat
  fillAmount :: rat
  buyOrderId :: string
  sellOrderId :: string
  makerOrderId :: string
  takerOrderId :: string
  timestamp :: nat
  batchId :: "string option"
  synthetic :: bool
  syntheticCounterparty :: "string option"
  syntheticQuoteAmount :: "rat option"

record batch_execution =
  beBatchId :: string
  beIndex :: nat
  beOfferToken :: string
  beRequestToken :: string
  beOfferAmount :: rat
  beReceiveAmount :: rat
  beExecutedAt :: nat

record synthetic_fill =
  sfCounterparty :: string
  sfPrice :: rat
  sfQuoteAmount :: rat
  sfFilledAt :: nat

text \<open>The keys of \<open>order.metadata\<close> that the engine reads or writes.\<close>

record metadata =
  rejectReason :: "string option"
  cancelReason :: "string option"
  availableVolume :: "rat option"
  unfilledAmount :: "rat option"
  priceSource :: "string option"
  metaPrice :: "rat option"
  trades :: "trade list option"
  queuedAt :: "nat option"
  restedAt :: "nat option"
  lastTradePrice :: "rat option"
  lastTradeAt :: "nat option"
  triggeredPrice :: "rat option"
  triggerSource :: "string option"
  metaTriggeredAt :: "nat option"
  syntheticFill :: "synthetic_fill option"
  batchExecutions :: "batch_execution list option"

record 'n order_of =
  oid :: string
  trader :: string
  baseToken :: string
  quoteToken :: string
  side :: side_t
  price :: "'n option"
  amount :: 'n
  filled :: 'n
  status :: status_t
  orderType :: order_type
  timeInForce :: tif
  stopPrice :: "'n option"
  allowPartialFill :: bool
  minFillAmount :: "'n option"
  triggeredAt :: "nat option"
  metadata :: metadata
  createdAt :: nat
  updatedAt :: nat
  executions :: "'n execution_of list"

type_synonym order = "rat order_of"

definition emptyMetadata :: metadata where
  "emptyMetadata =
     \<lparr> rejectReason = None, cancelReason = None, availableVolume = None,
       unfilledAmount = None, priceSource = None, metaPrice = None, trades = None,
       queuedAt = None, restedAt = None, lastTradePrice = None, lastTradeAt = None,
       triggeredPrice = None, triggerSource = None, metaTriggeredAt = None,
       syntheticFill = None, batchExecutions = None \<rparr>"

text \<open>\<open>get remaining()\<close>: \<open>amount - filled\<close>, floored at zero.\<close>

definition remaining :: "('n::{zero, minus, ord}) order_of \<Rightarrow> 'n" where
  "remaining ord = (let remainingAmount = amount ord - filled ord
                    in if remainingAmount > 0 then remainingAmount else 0)"

definition isBuy :: "order \<Rightarrow> bool" where
  "isBuy ord = (side ord = BUY)"

definition isSell :: "order \<Rightarrow> bool" where
  "isSell ord = (side ord = SELL)"

definition markTriggered :: "nat \<Rightarrow> order \<Rightarrow> order" where
  "markTriggered triggerTime ord =
     ord\<lparr> triggeredAt := Some triggerTime, status := TRIGGERED, updatedAt := triggerTime \<rparr>"

text \<open>
  \<open>recordFill(amount, price, counterpartyId, timestamp)\<close> returns the execution, or
  \<open>null\<close> when the amount is NaN or \<open>\<le> 0\<close>; the order is returned beside it.
  \<open>fillAmt\<close> is \<open>fillAmount\<close>, the value of \<open>Number(amount)\<close>.
\<close>

definition recordFill ::
  "('n::{zero, plus, minus, ord}) \<Rightarrow> 'n option \<Rightarrow> string \<Rightarrow> nat \<Rightarrow> 'n order_of
     \<Rightarrow> 'n execution_of option \<times> 'n order_of" where
  "recordFill fillAmt executionPrice counterpartyId ts ord =
     (if isNaN fillAmt \<or> fillAmt \<le> 0 then (None, ord)
      else
        let exe = \<lparr> exAmount = fillAmt, exPrice = executionPrice,
                    counterparty = (if counterpartyId = [] then None else Some counterpartyId),
                    exTimestamp = ts, exBatchId = None, exOfferAmount = None,
                    exReceiveAmount = None \<rparr>;
            o1 = ord\<lparr> filled := filled ord + fillAmt \<rparr>;
            o2 = o1\<lparr> status := (if remaining o1 \<le> 0 then FILLED else PARTIAL) \<rparr>
        in (Some exe, o2\<lparr> updatedAt := ts, executions := executions o2 @ [exe] \<rparr>))"

text \<open>\<open>cancel(reason)\<close>; the clock value read by \<open>new Date()\<close> is the argument \<open>now\<close>.\<close>

definition cancel :: "string \<Rightarrow> nat \<Rightarrow> order \<Rightarrow> order" where
  "cancel reason now ord =
     ord\<lparr> status := CANCELLED,
          metadata := (metadata ord)\<lparr> cancelReason := Some reason \<rparr>,
          updatedAt := now \<rparr>"

text \<open>A freshly constructed order, as \<open>new Order({...})\<close> yields it with the defaults.\<close>

definition newOrder ::
  "string \<Rightarrow> string \<Rightarrow> string \<Rightarrow> side_t \<Rightarrow> order_type \<Rightarrow> 'n option \<Rightarrow> ('n::zero) \<Rightarrow> nat
     \<Rightarrow> 'n order_of" where
  "newOrder i b q sd ty pr amt t =
     \<lparr> oid = i, trader = ''0x01'', baseToken = b, quoteToken = q, side = sd, price = pr,
       amount = amt, filled = 0, status = PENDING, orderType = ty, timeInForce = GTC,
       stopPrice = None, allowPartialFill = True, minFillAmount = None, triggeredAt = None,
       metadata = emptyMetadata, createdAt = t, updatedAt = t, executions = [] \<rparr>"

section \<open>Strings and pair keys\<close>


definition lowerChar :: "char \<Rightarrow> char" where
  "lowerChar c =
     (case map_of (zip ''ABCDEFGHIJKLMNOPQRSTUVWXYZ'' ''abcdefghijklmnopqrstuvwxyz'') c of
        None \<Rightarrow> c | Some l \<Rightarrow> l)"

definition toLowerCase :: "string \<Rightarrow> string" where
  "toLowerCase str = map lowerChar str"

text \<open>\<open>str.split(d)\<close> for a one-character separator.\<close>

fun splitOn :: "char \<Rightarrow> string \<Rightarrow> string list" where
  "splitOn d [] = [[]]"
| "splitOn d (c # cs) =
     (if c = d then [] # splitOn d cs
      else (case splitOn d cs of [] \<Rightarrow> [[c]] | seg # segs \<Rightarrow> (c # seg) # segs))"

text \<open>The order of \<open>Array.prototype.sort()\<close> on strings: by code unit, then by length.\<close>

fun lexLess :: "string \<Rightarrow> string \<Rightarrow> bool" where
  "lexLess [] [] = False"
| "lexLess [] (y # ys) = True"
| "lexLess (x # xs) [] = False"
| "lexLess (x # xs) (y # ys) =
     ((of_char x :: nat) < of_char y \<or> (x = y \<and> lexLess xs ys))"

text \<open>\<open>str.trim().length > 0\<close> fails on a string of white space only.\<close>

definition isBlank :: "string \<Rightarrow> bool" where
  "isBlank str = list_all (\<lambda>c. c \<in> set [CHR '' '', CHR 0x09, CHR 0x0A, CHR 0x0D]) str"

definition getPairKey :: "string \<Rightarrow> string \<Rightarrow> string" where
  "getPairKey b q = toLowerCase b @ ''-'' @ toLowerCase q"

definition nullToZero :: "rat option \<Rightarrow> rat" where
  "nullToZero v = (case v of None \<Rightarrow> 0 | Some x \<Rightarrow> x)"

text \<open>\<open>Number.isFinite(v) && v > 0 ? v : null\<close>.\<close>

definition positiveOrNull :: "rat option \<Rightarrow> rat option" where
  "positiveOrNull v = (case v of None \<Rightarrow> None | Some x \<Rightarrow> if x > 0 then Some x else None)"

section \<open>Engine state (matching.service.js, price-oracle.service.js)\<close>

record market_meta =
  mmSource :: string
  mmUpdatedAt :: nat
  mmPreviousPrice :: "rat option"
  mmPrice :: rat

text \<open>
  A book holds the ids of its orders; the order objects live in the store \<open>orders\<close> of
  the engine, so that a fill made through one list is seen through every other reference.
\<close>

record order_book =
  buy :: "string list"
  sell :: "string list"
  marketBuy :: "string list"
  marketSell :: "string list"
  stopLoss :: "string list"
  stopLimit :: "string list"
  bookTrades :: "trade list"

record pair_state =
  tokenA :: string
  tokenB :: string
  psPrice :: rat
  baselinePrice :: rat
  liquidityScore :: rat
  lastUpdatedAt :: nat
  lastSource :: string
  lastSide :: "side_t option"

record engine =
  orders :: "string \<rightharpoonup> order"
  orderBooks :: "string \<rightharpoonup> order_book"
  marketPrices :: "string \<rightharpoonup> rat"
  marketPriceMeta :: "string \<rightharpoonup> market_meta"
  pairStates :: "string \<rightharpoonup> pair_state"

text \<open>
  What the services take from outside: the clock read by \<open>new Date()\<close> (one value for a
  whole call), \<open>ethers.getAddress\<close> (\<open>None\<close> where it throws), the random strings
  of \<open>crypto\<close>, the number that \<open>Number\<close> reads from the string returned by
  \<open>ethers.formatUnits(value, decimals)\<close> (\<open>None\<close> where formatUnits throws), and
  \<open>String.prototype.toUpperCase\<close>.
\<close>

record env =
  clock :: nat
  getAddress :: "string \<Rightarrow> string option"
  randomHex :: string
  randomUUID :: string
  formatUnits :: "int \<Rightarrow> int \<Rightarrow> double option"
  toUpperCase :: "string \<Rightarrow> string"

datatype list_name = LBuy | LSell | LMarketBuy | LMarketSell | LStopLoss | LStopLimit

definition emptyBook :: order_book where
  "emptyBook = \<lparr> buy = [], sell = [], marketBuy = [], marketSell = [], stopLoss = [],
                 stopLimit = [], bookTrades = [] \<rparr>"

definition emptyEngine :: engine where
  "emptyEngine = \<lparr> orders = Map.empty, orderBooks = Map.empty, marketPrices = Map.empty,
                   marketPriceMeta = Map.empty, pairStates = Map.empty \<rparr>"

fun getList :: "list_name \<Rightarrow> order_book \<Rightarrow> string list" where
  "getList LBuy b = buy b"
| "getList LSell b = sell b"
| "getList LMarketBuy b = marketBuy b"
| "getList LMarketSell b = marketSell b"
| "getList LStopLoss b = stopLoss b"
| "getList LStopLimit b = stopLimit b"

fun setList :: "list_name \<Rightarrow> string list \<Rightarrow> order_book \<Rightarrow> order_book" where
  "setList LBuy xs b = b\<lparr> buy := xs \<rparr>"
| "setList LSell xs b = b\<lparr> sell := xs \<rparr>"
| "setList LMarketBuy xs b = b\<lparr> marketBuy := xs \<rparr>"
| "setList LMarketSell xs b = b\<lparr> marketSell := xs \<rparr>"
| "setList LStopLoss xs b = b\<lparr> stopLoss := xs \<rparr>"
| "setList LStopLimit xs b = b\<lparr> stopLimit := xs \<rparr>"

definition bookOf :: "engine \<Rightarrow> string \<Rightarrow> order_book" where
  "bookOf s pairKey = (case orderBooks s pairKey of None \<Rightarrow> emptyBook | Some b \<Rightarrow> b)"

definition getOrCreateOrderBook :: "string \<Rightarrow> engine \<Rightarrow> engine" where
  "getOrCreateOrderBook pairKey s =
     (case orderBooks s pairKey of
        None \<Rightarrow> s\<lparr> orderBooks := (orderBooks s)(pairKey \<mapsto> emptyBook) \<rparr>
      | Some b \<Rightarrow> s)"

definition listOf :: "engine \<Rightarrow> string \<Rightarrow> list_name \<Rightarrow> string list" where
  "listOf s pairKey nm = getList nm (bookOf s pairKey)"

definition putList :: "string \<Rightarrow> list_name \<Rightarrow> string list \<Rightarrow> engine \<Rightarrow> engine" where
  "putList pairKey nm xs s =
     s\<lparr> orderBooks := (orderBooks s)(pairKey \<mapsto> setList nm xs (bookOf s pairKey)) \<rparr>"

text \<open>A mutation of the order object with the given id.\<close>

definition updOrder :: "string \<Rightarrow> (order \<Rightarrow> order) \<Rightarrow> engine \<Rightarrow> engine" where
  "updOrder i f s =
     (case orders s i of None \<Rightarrow> s | Some ord \<Rightarrow> s\<lparr> orders := (orders s)(i \<mapsto> f ord) \<rparr>)"

definition updMeta :: "(metadata \<Rightarrow> metadata) \<Rightarrow> order \<Rightarrow> order" where
  "updMeta f ord = ord\<lparr> metadata := f (metadata ord) \<rparr>"

text \<open>
  \<open>_removeOrderFromList(list, orderId)\<close>: splices out the first entry with that id and
  tells whether there was one.
\<close>

definition removeOrderFromList :: "string list \<Rightarrow> string \<Rightarrow> bool \<times> string list" where
  "removeOrderFromList xs orderId =
     (if orderId = [] then (False, xs)
      else if orderId \<in> set xs then (True, remove1 orderId xs)
      else (False, xs))"

definition removeFrom :: "string \<Rightarrow> list_name \<Rightarrow> string \<Rightarrow> engine \<Rightarrow> bool \<times> engine" where
  "removeFrom pairKey nm orderId s =
     (let (found, xs) = removeOrderFromList (listOf s pairKey nm) orderId
      in (found, if found then putList pairKey nm xs s else s))"

section \<open>Market price entries\<close>

record price_update =
  puSource :: "string option"
  puUpdatedAt :: "nat option"
  puPreviousPrice :: "rat option"
  skipStopTrigger :: bool

record snapshot =
  snPrice :: rat
  snSource :: string
  snUpdatedAt :: "nat option"
  snPreviousPrice :: "rat option"

definition fromSource :: "string \<Rightarrow> price_update" where
  "fromSource src = \<lparr> puSource = Some src, puUpdatedAt = None, puPreviousPrice = None,
                       skipStopTrigger = False \<rparr>"


definition getMarketPriceSnapshotFromKey :: "engine \<Rightarrow> string \<Rightarrow> snapshot option" where
  "getMarketPriceSnapshotFromKey s pairKey =
     (if pairKey = [] then None
      else (case marketPrices s pairKey of
              None \<Rightarrow> None
            | Some p \<Rightarrow>
                (case marketPriceMeta s pairKey of
                   None \<Rightarrow> Some \<lparr> snPrice = p, snSource = ''unknown'', snUpdatedAt = None,
                                   snPreviousPrice = None \<rparr>
                 | Some m \<Rightarrow>
                     Some \<lparr> snPrice = p,
                            snSource = (if mmSource m = [] then ''unknown'' else mmSource m),
                            snUpdatedAt = Some (mmUpdatedAt m),
                            snPreviousPrice = positiveOrNull (mmPreviousPrice m) \<rparr>)))"

definition normalizeMarketMetadata :: "price_update \<Rightarrow> price_update" where
  "normalizeMarketMetadata m =
     \<lparr> puSource = (case puSource m of None \<Rightarrow> None
                    | Some src \<Rightarrow> if isBlank src then None else Some src),
       puUpdatedAt = puUpdatedAt m,
       puPreviousPrice = positiveOrNull (puPreviousPrice m),
       skipStopTrigger = False \<rparr>"

definition setMarketPriceEntry :: "env \<Rightarrow> string \<Rightarrow> rat \<Rightarrow> price_update \<Rightarrow> engine \<Rightarrow> engine" where
  "setMarketPriceEntry E pairKey p m s =
     (let previousMeta = marketPriceMeta s pairKey;
          inherited = (case previousMeta of
                         None \<Rightarrow> ''unknown''
                       | Some pm \<Rightarrow> if mmSource pm = [] then ''unknown'' else mmSource pm);
          src = (case puSource m of
                   Some x \<Rightarrow> if x = [] then inherited else x
                 | None \<Rightarrow> inherited);
          upAt = (case puUpdatedAt m of Some t \<Rightarrow> t | None \<Rightarrow> clock E);
          prev = (case puPreviousPrice m of
                    Some x \<Rightarrow> Some x
                  | None \<Rightarrow> (case previousMeta of None \<Rightarrow> None | Some pm \<Rightarrow> Some (mmPrice pm)))
      in s\<lparr> marketPrices := (marketPrices s)(pairKey \<mapsto> p),
            marketPriceMeta := (marketPriceMeta s)(pairKey \<mapsto>
               \<lparr> mmSource = src, mmUpdatedAt = upAt, mmPreviousPrice = prev, mmPrice = p \<rparr>) \<rparr>)"

text \<open>
  The key of the inverse pair, as \<open>_updateMarketPriceInternal\<close> derives it from the
  first two segments of \<open>pairKey.split('-')\<close>.
\<close>

definition inverseKeyOf :: "string \<Rightarrow> string option" where
  "inverseKeyOf pairKey =
     (if CHR ''-'' \<in> set pairKey then
        (case splitOn (CHR ''-'') pairKey of
           b # q # _ \<Rightarrow> if b \<noteq> [] \<and> q \<noteq> [] then Some (getPairKey q b) else None
         | _ \<Rightarrow> None)
      else None)"

text \<open>
  The part of \<open>_updateMarketPriceInternal\<close> before the stop scan: the entry of the pair
  and, when the inverse key differs, the entry of the inverse pair. The result carries the
  inverse key and price handed to the stop scan, and the two previous prices.
\<close>

definition setPriceAndInverse ::
  "env \<Rightarrow> string \<Rightarrow> rat \<Rightarrow> price_update
     \<Rightarrow> engine \<Rightarrow> engine \<times> (string \<times> rat \<times> rat option) option \<times> rat option" where
  "setPriceAndInverse E pairKey numericPrice m s =
     (let previousPrice = marketPrices s pairKey;
          s1 = setMarketPriceEntry E pairKey numericPrice
                 (normalizeMarketMetadata (m\<lparr> puPreviousPrice := previousPrice \<rparr>)) s
      in (case inverseKeyOf pairKey of
            None \<Rightarrow> (s1, None, previousPrice)
          | Some inverseKey \<Rightarrow>
              if inverseKey = pairKey then (s1, None, previousPrice)
              else
                let previousInverse = marketPrices s1 inverseKey;
                    inversePrice = 1 / numericPrice;
                    s2 = setMarketPriceEntry E inverseKey inversePrice
                           (normalizeMarketMetadata (m\<lparr> puPreviousPrice := previousInverse \<rparr>)) s1
                in (s2, Some (inverseKey, inversePrice, previousInverse), previousPrice)))"

section \<open>Price oracle: pair state and trade registration\<close>

definition normalizeAddress :: "env \<Rightarrow> string \<Rightarrow> string" where
  "normalizeAddress E address =
     (if address = [] then []
      else (case getAddress E address of Some a \<Rightarrow> a | None \<Rightarrow> toLowerCase address))"

record descriptor =
  dKey :: string
  dTokenA :: string
  dTokenB :: string
  dForward :: bool

definition getCanonicalDescriptor :: "env \<Rightarrow> string \<Rightarrow> string \<Rightarrow> descriptor option" where
  "getCanonicalDescriptor E b q =
     (let baseAddress = normalizeAddress E b; quoteAddress = normalizeAddress E q
      in if baseAddress = [] \<or> quoteAddress = [] \<or> baseAddress = quoteAddress then None
         else
           let tA = (if lexLess quoteAddress baseAddress then quoteAddress else baseAddress);
               tB = (if lexLess quoteAddress baseAddress then baseAddress else quoteAddress)
           in Some \<lparr> dKey = tA @ ''-'' @ tB, dTokenA = tA, dTokenB = tB,
                     dForward = (baseAddress = tA) \<rparr>)"

definition getPriceFromState :: "pair_state \<Rightarrow> bool \<Rightarrow> rat option" where
  "getPriceFromState st forward =
     (if psPrice st \<le> 0 then None
      else if forward then Some (psPrice st)
      else Some (1 / psPrice st))"

record oracle_snapshot =
  osPrice :: rat
  osSource :: string
  osUpdatedAt :: "nat option"

definition getCachedPairSnapshot :: "env \<Rightarrow> engine \<Rightarrow> string \<Rightarrow> string \<Rightarrow> oracle_snapshot option" where
  "getCachedPairSnapshot E s b q =
     (case getCanonicalDescriptor E b q of
        None \<Rightarrow> None
      | Some d \<Rightarrow>
          (case pairStates s (dKey d) of
             None \<Rightarrow> None
           | Some st \<Rightarrow>
               (case getPriceFromState st (dForward d) of
                  None \<Rightarrow> None
                | Some p \<Rightarrow>
                    if p \<le> 0 then None
                    else Some \<lparr> osPrice = p,
                                osSource = (if lastSource st = [] then ''synthetic'' else lastSource st),
                                osUpdatedAt = Some (lastUpdatedAt st) \<rparr>)))"

definition ensurePairState ::
  "env \<Rightarrow> string \<Rightarrow> string \<Rightarrow> rat \<Rightarrow> engine \<Rightarrow> (descriptor \<times> pair_state \<times> engine) option" where
  "ensurePairState E b q fallbackPrice s =
     (case getCanonicalDescriptor E b q of
        None \<Rightarrow> None
      | Some d \<Rightarrow>
          (case pairStates s (dKey d) of
             Some st \<Rightarrow> Some (d, st, s)
           | None \<Rightarrow>
               let c0 = (if fallbackPrice \<le> 0 then 1 else fallbackPrice);
                   c1 = (if dForward d then c0 else (if c0 > 0 then 1 / c0 else 1));
                   canonicalPrice = (if c1 \<le> 0 then 1 else c1);
                   st = \<lparr> tokenA = dTokenA d, tokenB = dTokenB d, psPrice = canonicalPrice,
                          baselinePrice = canonicalPrice, liquidityScore = 1000,
                          lastUpdatedAt = clock E, lastSource = ''synthetic'', lastSide = None \<rparr>
               in Some (d, st, s\<lparr> pairStates := (pairStates s)(dKey d \<mapsto> st) \<rparr>)))"

definition clampPrice :: "rat \<Rightarrow> rat option" where
  "clampPrice v =
     (if v \<le> 0 then None
      else if v < 1 / 10 ^ 12 then Some (1 / 10 ^ 12)
      else if v > 10 ^ 12 then Some (10 ^ 12)
      else Some v)"

definition computeVolumeWeight :: "pair_state \<Rightarrow> rat \<Rightarrow> rat" where
  "computeVolumeWeight st notionalVolume =
     (if notionalVolume \<le> 0 then 5 / 100
      else
        let baseLiquidity = (if liquidityScore st > 0 then liquidityScore st else 1000);
            ratio = notionalVolume / (baseLiquidity + notionalVolume)
        in min (85 / 100) (max (5 / 100) ratio))"

text \<open>
  \<open>registerTrade(baseToken, quoteToken, {price, baseAmount, quoteAmount, side, source})\<close>
  as the engine calls it, with all five fields given as numbers and strings. The price it
  returns is not used by the engine; the model returns the new state.
\<close>

definition registerTrade ::
  "env \<Rightarrow> string \<Rightarrow> string \<Rightarrow> rat \<Rightarrow> rat \<Rightarrow> rat \<Rightarrow> side_t \<Rightarrow> string \<Rightarrow> engine \<Rightarrow> engine" where
  "registerTrade E b q rawPrice baseAmount quoteAmount sd src s =
     (let baseAddress = normalizeAddress E b; quoteAddress = normalizeAddress E q
      in if baseAddress = [] \<or> quoteAddress = [] \<or> baseAddress = quoteAddress then s
         else
           let resolvedBaseAmount = positiveOrNull (Some baseAmount);
               price0 = positiveOrNull (Some rawPrice);
               quote0 = positiveOrNull (Some quoteAmount);
               resolvedPrice =
                 (case (price0, resolvedBaseAmount, quote0) of
                    (None, Some ba, Some qa) \<Rightarrow> Some (qa / ba)
                  | _ \<Rightarrow> price0);
               resolvedQuoteAmount =
                 (case (price0, resolvedBaseAmount, quote0) of
                    (Some pr, Some ba, None) \<Rightarrow> Some (ba * pr)
                  | _ \<Rightarrow> quote0)
           in (case resolvedPrice of
                 None \<Rightarrow> s
               | Some rp \<Rightarrow>
                   if rp \<le> 0 then s
                   else
                     (case ensurePairState E baseAddress quoteAddress rp s of
                        None \<Rightarrow> s
                      | Some (d, st, s1) \<Rightarrow>
                          let canonicalPrice = (if dForward d then rp else 1 / rp)
                          in if canonicalPrice \<le> 0 then s1
                             else
                               let notionalVolume =
                                     (case resolvedQuoteAmount of
                                        Some qa \<Rightarrow> qa
                                      | None \<Rightarrow> (case resolvedBaseAmount of
                                                   Some ba \<Rightarrow> ba * rp
                                                 | None \<Rightarrow> 0));
                                   weight = computeVolumeWeight st notionalVolume;
                                   p1 = (if psPrice st \<le> 0 then canonicalPrice
                                         else psPrice st + (canonicalPrice - psPrice st) * weight);
                                   directionalSign =
                                     (case sd of
                                        SELL \<Rightarrow> (if dForward d then - 1 else 1)
                                      | BUY \<Rightarrow> (if dForward d then 1 else - 1));
                                   nudge = min (25 / 100) (weight * (1 / 10));
                                   p2 = (case clampPrice (p1 * (1 + directionalSign * nudge)) of
                                           Some c \<Rightarrow> c | None \<Rightarrow> p1);
                                   p3 = (case clampPrice p2 of Some c \<Rightarrow> c | None \<Rightarrow> canonicalPrice);
                                   currentLiquidity =
                                     (if liquidityScore st > 0 then liquidityScore st else 1000);
                                   st' = st\<lparr> psPrice := p3,
                                             liquidityScore := currentLiquidity * (85 / 100)
                                               + (if notionalVolume > 0 then notionalVolume else 0),
                                             lastUpdatedAt := clock E,
                                             lastSource := (if src = [] then ''synthetic'' else src),
                                             lastSide := Some sd \<rparr>
                               in s1\<lparr> pairStates := (pairStates s1)(dKey d \<mapsto> st') \<rparr>)))"

section \<open>Matching engine: helpers without recursion\<close>

definition determineTradePrice :: "engine \<Rightarrow> order \<Rightarrow> order \<Rightarrow> string \<Rightarrow> rat" where
  "determineTradePrice s taker maker pairKey =
     (case price maker of
        Some p \<Rightarrow> p
      | None \<Rightarrow>
          (case price taker of
             Some p \<Rightarrow> p
           | None \<Rightarrow>
               (case getMarketPriceSnapshotFromKey s pairKey of
                  Some sn \<Rightarrow> snPrice sn
                | None \<Rightarrow> 0)))"

text \<open>\<open>_recordTrade\<close>: the history of a pair keeps the \<open>maxTradeHistory = 200\<close> last trades.\<close>

definition recordTrade :: "string \<Rightarrow> trade \<Rightarrow> engine \<Rightarrow> engine" where
  "recordTrade pairKey t s =
     (let s1 = getOrCreateOrderBook pairKey s;
          b = bookOf s1 pairKey;
          ts = bookTrades b @ [t];
          ts' = (if length ts > 200 then tl ts else ts)
      in s1\<lparr> orderBooks := (orderBooks s1)(pairKey \<mapsto> b\<lparr> bookTrades := ts' \<rparr>) \<rparr>)"

definition priceCondition :: "order \<Rightarrow> order \<Rightarrow> bool" where
  "priceCondition ord maker =
     (case price maker of
        None \<Rightarrow> False
      | Some mp \<Rightarrow> if isBuy ord then mp \<le> nullToZero (price ord)
                   else mp \<ge> nullToZero (price ord))"

text \<open>
  \<open>_calculateFillableVolume\<close>: the remaining amounts of the leading orders that satisfy
  the predicate. An id without an object does not occur in a list; it counts as nothing.
\<close>

fun calculateFillableVolume :: "engine \<Rightarrow> string list \<Rightarrow> (order \<Rightarrow> bool) \<Rightarrow> rat" where
  "calculateFillableVolume s [] canMatch = 0"
| "calculateFillableVolume s (i # rest) canMatch =
     (case orders s i of
        None \<Rightarrow> 0
      | Some ord \<Rightarrow> if canMatch ord then remaining ord + calculateFillableVolume s rest canMatch
                    else 0)"

text \<open>
  The comparator of \<open>_sortOrders\<close> and the stable sort of \<open>Array.prototype.sort\<close>
  (insertion after the entries that do not compare greater).
\<close>

definition compareOrders :: "side_t \<Rightarrow> order \<Rightarrow> order \<Rightarrow> rat" where
  "compareOrders sd a b =
     (let priceA = nullToZero (price a); priceB = nullToZero (price b);
          byTime = of_nat (createdAt a) - of_nat (createdAt b)
      in case sd of
           BUY \<Rightarrow> if priceB \<noteq> priceA then priceB - priceA else byTime
         | SELL \<Rightarrow> if priceA \<noteq> priceB then priceA - priceB else byTime)"

definition compareIds :: "engine \<Rightarrow> side_t \<Rightarrow> string \<Rightarrow> string \<Rightarrow> rat" where
  "compareIds s sd i j =
     (case (orders s i, orders s j) of
        (Some a, Some b) \<Rightarrow> compareOrders sd a b
      | _ \<Rightarrow> 0)"

fun insertSorted :: "(string \<Rightarrow> string \<Rightarrow> rat) \<Rightarrow> string \<Rightarrow> string list \<Rightarrow> string list" where
  "insertSorted cmp x [] = [x]"
| "insertSorted cmp x (y # ys) =
     (if cmp y x \<le> 0 then y # insertSorted cmp x ys else x # y # ys)"

definition sortOrders :: "engine \<Rightarrow> side_t \<Rightarrow> string list \<Rightarrow> string list" where
  "sortOrders s sd xs = foldl (\<lambda>acc x. insertSorted (compareIds s sd) x acc) [] xs"

definition restOnBook :: "string \<Rightarrow> string \<Rightarrow> list_name \<Rightarrow> side_t \<Rightarrow> engine \<Rightarrow> engine" where
  "restOnBook pairKey orderId nm sd s =
     (let xs = listOf s pairKey nm;
          xs1 = (if orderId \<in> set xs then xs else xs @ [orderId]);
          s1 = updOrder orderId (\<lambda>ord. if filled ord = 0 then ord\<lparr> status := PENDING \<rparr> else ord) s
      in putList pairKey nm (sortOrders s1 sd xs1) s1)"

definition restMarketOrder :: "env \<Rightarrow> string \<Rightarrow> string \<Rightarrow> engine \<Rightarrow> engine" where
  "restMarketOrder E pairKey orderId s =
     (case orders s orderId of
        None \<Rightarrow> s
      | Some ord \<Rightarrow>
          let nm = (if isBuy ord then LMarketBuy else LMarketSell);
              xs = listOf s pairKey nm;
              s1 = putList pairKey nm (if orderId \<in> set xs then xs else xs @ [orderId]) s
          in updOrder orderId
               (\<lambda>ord. updMeta (\<lambda>m. m\<lparr> restedAt := (case restedAt m of
                                                      None \<Rightarrow> Some (clock E)
                                                    | Some t \<Rightarrow> Some t) \<rparr>)
                        (ord\<lparr> status := (if filled ord > 0 then PARTIAL else PENDING) \<rparr>)) s1)"

definition resolveOrderPrice :: "order \<Rightarrow> rat option" where
  "resolveOrderPrice ord =
     (let direct = nullToZero (price ord)
      in if direct > 0 then Some direct
         else positiveOrNull (metaPrice (metadata ord)))"

definition shouldUseSyntheticLiquidity :: "engine \<Rightarrow> order \<Rightarrow> bool" where
  "shouldUseSyntheticLiquidity s ord =
     (if orderType ord \<noteq> MARKET then False
      else (case resolveOrderPrice ord of
              None \<Rightarrow> False
            | Some p \<Rightarrow>
                if (case priceSource (metadata ord) of
                      None \<Rightarrow> False
                    | Some src \<Rightarrow> src \<noteq> [] \<and> toLowerCase src = ''synthetic'')
                then True
                else (case marketPriceMeta s (getPairKey (baseToken ord) (quoteToken ord)) of
                        None \<Rightarrow> False
                      | Some m \<Rightarrow> toLowerCase (mmSource m) = ''synthetic'')))"

definition shouldTriggerStop :: "order \<Rightarrow> rat \<Rightarrow> bool" where
  "shouldTriggerStop ord current =
     (case stopPrice ord of
        None \<Rightarrow> False
      | Some stop \<Rightarrow> if isSell ord then current \<le> stop else current \<ge> stop)"

record trigger_context =
  ctxPrice :: "rat option"
  ctxSource :: string
  ctxTimestamp :: nat
  ctxPreviousPrice :: "rat option"

definition buildTriggerContext ::
  "env \<Rightarrow> snapshot option \<Rightarrow> rat \<Rightarrow> rat option \<Rightarrow> trigger_context" where
  "buildTriggerContext E sn fallbackPrice previousPrice =
     (let triggerPrice = (case sn of
                            None \<Rightarrow> fallbackPrice
                          | Some x \<Rightarrow> if snPrice x > 0 then snPrice x else fallbackPrice)
      in \<lparr> ctxPrice = (if triggerPrice > 0 then Some triggerPrice else None),
           ctxSource = (case sn of
                          None \<Rightarrow> ''trigger''
                        | Some x \<Rightarrow> if snSource x = [] then ''trigger'' else snSource x),
           ctxTimestamp = (case sn of
                             None \<Rightarrow> clock E
                           | Some x \<Rightarrow> (case snUpdatedAt x of None \<Rightarrow> clock E | Some t \<Rightarrow> t)),
           ctxPreviousPrice =
             (case positiveOrNull previousPrice of
                Some p \<Rightarrow> Some p
              | None \<Rightarrow> (case sn of None \<Rightarrow> None | Some x \<Rightarrow> positiveOrNull (snPreviousPrice x))) \<rparr>)"

definition prepareTriggeredStopMetadata :: "trigger_context \<Rightarrow> order \<Rightarrow> order" where
  "prepareTriggeredStopMetadata ctx ord =
     (let triggerPrice = positiveOrNull (ctxPrice ctx);
          triggerSource' = (if ctxSource ctx = [] then ''trigger'' else ctxSource ctx);
          m0 = metadata ord;
          m1 = (case triggerPrice of
                  None \<Rightarrow> m0
                | Some tp \<Rightarrow>
                    m0\<lparr> triggeredPrice := Some tp,
                        metaPrice := (case positiveOrNull (metaPrice m0) of
                                        None \<Rightarrow> Some tp
                                      | Some x \<Rightarrow> Some x) \<rparr>);
          m2 = m1\<lparr> triggerSource := Some triggerSource',
                   metaTriggeredAt := Some (ctxTimestamp ctx) \<rparr>;
          m3 = (case priceSource m2 of
                  None \<Rightarrow> m2\<lparr> priceSource := Some triggerSource' \<rparr>
                | Some src \<Rightarrow> if src = [] then m2\<lparr> priceSource := Some triggerSource' \<rparr> else m2)
      in markTriggered (ctxTimestamp ctx) (ord\<lparr> metadata := m3 \<rparr>))"

definition requiresFullFill :: "order \<Rightarrow> bool" where
  "requiresFullFill ord = (timeInForce ord = FOK \<or> allowPartialFill ord = False)"

definition determineTriggeredStopFillAmount :: "order \<Rightarrow> order \<Rightarrow> rat" where
  "determineTriggeredStopFillAmount buyOrder sellOrder =
     (let maxFill = min (remaining buyOrder) (remaining sellOrder)
      in if \<not> (maxFill > 0) then 0
         else if requiresFullFill buyOrder \<and> remaining sellOrder < remaining buyOrder then 0
         else if requiresFullFill sellOrder \<and> remaining buyOrder < remaining sellOrder then 0
         else if (case minFillAmount buyOrder of None \<Rightarrow> False | Some mf \<Rightarrow> mf > maxFill) then 0
         else if (case minFillAmount sellOrder of None \<Rightarrow> False | Some mf \<Rightarrow> mf > maxFill) then 0
         else if requiresFullFill buyOrder then remaining buyOrder
         else if requiresFullFill sellOrder then remaining sellOrder
         else maxFill)"

definition resolveTriggeredTradePrice ::
  "engine \<Rightarrow> order \<Rightarrow> order \<Rightarrow> string \<Rightarrow> trigger_context \<Rightarrow> rat option" where
  "resolveTriggeredTradePrice s buyOrder sellOrder pairKey ctx =
     (case positiveOrNull (ctxPrice ctx) of
        Some p \<Rightarrow> Some p
      | None \<Rightarrow>
          (case (positiveOrNull (stopPrice buyOrder), positiveOrNull (stopPrice sellOrder)) of
             (Some b, Some a) \<Rightarrow> Some ((b + a) / 2)
           | (Some b, None) \<Rightarrow> Some b
           | (None, Some a) \<Rightarrow> Some a
           | (None, None) \<Rightarrow>
               (case getMarketPriceSnapshotFromKey s pairKey of
                  None \<Rightarrow> None
                | Some sn \<Rightarrow> if snPrice sn > 0 then Some (snPrice sn) else None)))"

definition determineTriggeredStopMaker :: "order \<Rightarrow> order \<Rightarrow> order" where
  "determineTriggeredStopMaker buyOrder sellOrder =
     (if createdAt buyOrder \<le> createdAt sellOrder then buyOrder else sellOrder)"

section \<open>Matching engine: the functions that update the market price\<close>

text \<open>
  \<open>_updateMarketPriceInternal\<close> scans the stop lists, the triggered stops are matched,
  and every match updates the market price again. The functions below take the price
  update as the parameter \<open>upd\<close>; \<open>updateMarketPriceInternal\<close> closes the recursion
  with a bound \<open>n\<close> on its depth, which also bounds the iterations of each
  \<open>while\<close> loop. \<open>None\<close> is the bound reached (or an id without an object, which no
  state of the program has).
\<close>

type_synonym updater = "string \<Rightarrow> rat \<Rightarrow> price_update \<Rightarrow> engine \<Rightarrow> engine option"

type_synonym trade_map = "(string \<times> trade list) list"

definition tmGet :: "trade_map \<Rightarrow> string \<Rightarrow> trade list" where
  "tmGet m i = (case map_of m i of None \<Rightarrow> [] | Some ts \<Rightarrow> ts)"

fun tmSet :: "trade_map \<Rightarrow> string \<Rightarrow> trade list \<Rightarrow> trade_map" where
  "tmSet [] i ts = [(i, ts)]"
| "tmSet ((j, us) # m) i ts = (if i = j then (j, ts) # m else (j, us) # tmSet m i ts)"

definition tmAppend :: "trade_map \<Rightarrow> string \<Rightarrow> trade list \<Rightarrow> trade_map" where
  "tmAppend m i ts = tmSet m i (tmGet m i @ ts)"

definition applyMarketBuyImpact ::
  "updater \<Rightarrow> env \<Rightarrow> string \<Rightarrow> string \<Rightarrow> rat \<Rightarrow> rat \<Rightarrow> engine \<Rightarrow> engine option" where
  "applyMarketBuyImpact upd E orderId pairKey referencePrice baseFilled s =
     (case orders s orderId of
        None \<Rightarrow> Some s
      | Some ord \<Rightarrow>
          if \<not> isBuy ord \<or> orderType ord \<noteq> MARKET then Some s
          else if baseFilled \<le> 0 then Some s
          else
            let impact = baseFilled * 1
            in if impact \<le> 0 then Some s
               else
                 (case (if referencePrice > 0 then Some referencePrice
                        else (case getMarketPriceSnapshotFromKey s pairKey of
                                None \<Rightarrow> None
                              | Some sn \<Rightarrow> if snPrice sn > 0 then Some (snPrice sn) else None)) of
                    None \<Rightarrow> Some s
                  | Some baseline \<Rightarrow>
                      let boostedPrice = baseline + impact
                      in if boostedPrice \<le> baseline then Some s
                         else
                           do {
                             s1 \<leftarrow> upd pairKey boostedPrice
                                    ((fromSource ''market-buy-impact'')\<lparr> puPreviousPrice := Some baseline \<rparr>) s;
                             Some (registerTrade E (baseToken ord) (quoteToken ord) boostedPrice
                                     baseFilled (baseFilled * boostedPrice) BUY ''market-buy-impact'' s1)
                           }))"

definition mkTrade ::
  "rat \<Rightarrow> rat \<Rightarrow> string \<Rightarrow> string \<Rightarrow> string \<Rightarrow> string \<Rightarrow> nat \<Rightarrow> trade" where
  "mkTrade p amt buyId sellId makerId takerId ts =
     \<lparr> tradePrice = p, tradeAmount = amt, fillAmount = amt, buyOrderId = buyId,
       sellOrderId = sellId, makerOrderId = makerId, takerOrderId = takerId, timestamp = ts,
       batchId = None, synthetic = False, syntheticCounterparty = None,
       syntheticQuoteAmount = None \<rparr>"

definition noteLastTrade :: "rat \<Rightarrow> nat \<Rightarrow> order \<Rightarrow> order" where
  "noteLastTrade p ts ord =
     updMeta (\<lambda>m. m\<lparr> lastTradePrice := Some p, lastTradeAt := Some ts \<rparr>) ord"

text \<open>One iteration of the loop of \<open>_matchOrder\<close>, from the fills to the \<open>shift\<close>.\<close>

definition matchStep ::
  "updater \<Rightarrow> env \<Rightarrow> string \<Rightarrow> string \<Rightarrow> string \<Rightarrow> list_name \<Rightarrow> rat
     \<Rightarrow> engine \<Rightarrow> (trade \<times> engine) option" where
  "matchStep upd E pairKey takerId makerId nm fillAmt s =
     do {
       taker \<leftarrow> orders s takerId;
       maker \<leftarrow> orders s makerId;
       let tradePrice' = determineTradePrice s taker maker pairKey;
           ts = clock E;
           s1 = updOrder makerId (\<lambda>m. snd (recordFill fillAmt (Some tradePrice') (oid taker) ts m)) s;
           s2 = updOrder takerId (\<lambda>t. snd (recordFill fillAmt (Some tradePrice') (oid maker) ts t)) s1;
           s3 = updOrder takerId (noteLastTrade tradePrice' ts)
                  (updOrder makerId (noteLastTrade tradePrice' ts) s2);
           t = mkTrade tradePrice' fillAmt
                 (if isBuy taker then oid taker else oid maker)
                 (if isSell taker then oid taker else oid maker)
                 (oid maker) (oid taker) ts;
           s4 = recordTrade pairKey t s3
       in do {
         s5 \<leftarrow> upd pairKey tradePrice' (fromSource ''orderbook'') s4;
         s6 \<leftarrow> applyMarketBuyImpact upd E takerId pairKey tradePrice' fillAmt s5;
         s7 \<leftarrow> applyMarketBuyImpact upd E makerId pairKey tradePrice' fillAmt s6;
         let s8 = registerTrade E (baseToken taker) (quoteToken taker) tradePrice' fillAmt
                    (fillAmt * tradePrice') (if isSell taker then SELL else BUY) ''orderbook'' s7
         in do {
           maker' \<leftarrow> orders s8 makerId;
           Some (t, if remaining maker' \<le> 0
                    then putList pairKey nm (tl (listOf s8 pairKey nm)) s8
                    else s8)
         }
       }
     }"

primrec matchOrder ::
  "updater \<Rightarrow> env \<Rightarrow> nat \<Rightarrow> string \<Rightarrow> string \<Rightarrow> list_name \<Rightarrow> (order \<Rightarrow> bool)
     \<Rightarrow> engine \<Rightarrow> (trade list \<times> engine) option" where
  "matchOrder upd E 0 pairKey takerId nm canMatch s = None"
| "matchOrder upd E (Suc n) pairKey takerId nm canMatch s =
     (case orders s takerId of
        None \<Rightarrow> None
      | Some taker \<Rightarrow>
          if \<not> (remaining taker > 0) then Some ([], s)
          else
            (case listOf s pairKey nm of
               [] \<Rightarrow> Some ([], s)
             | makerId # _ \<Rightarrow>
                 (case orders s makerId of
                    None \<Rightarrow> None
                  | Some maker \<Rightarrow>
                      if \<not> canMatch maker then Some ([], s)
                      else
                        let fillAmt = min (remaining taker) (remaining maker)
                        in if fillAmt \<le> 0 then Some ([], s)
                           else
                             do {
                               (t, s1) \<leftarrow> matchStep upd E pairKey takerId makerId nm fillAmt s;
                               (ts, s2) \<leftarrow> matchOrder upd E n pairKey takerId nm canMatch s1;
                               Some (t # ts, s2)
                             })))"

definition fillWithSyntheticLiquidity ::
  "updater \<Rightarrow> env \<Rightarrow> string \<Rightarrow> string \<Rightarrow> engine \<Rightarrow> (trade option \<times> engine) option" where
  "fillWithSyntheticLiquidity upd E orderId pairKey s =
     (case orders s orderId of
        None \<Rightarrow> Some (None, s)
      | Some ord \<Rightarrow>
          (case resolveOrderPrice ord of
             None \<Rightarrow> Some (None, s)
           | Some p \<Rightarrow>
               let baseRemaining = remaining ord
               in if p \<le> 0 \<or> \<not> (baseRemaining > 0) then Some (None, s)
                  else
                    let ts = clock E;
                        counterpartyId = ''synthetic-liquidity-'' @ randomHex E;
                        quoteAmount = baseRemaining * p;
                        t = (mkTrade p baseRemaining
                               (if isBuy ord then oid ord else counterpartyId)
                               (if isSell ord then oid ord else counterpartyId)
                               counterpartyId (oid ord) ts)
                             \<lparr> synthetic := True, syntheticCounterparty := Some counterpartyId,
                               syntheticQuoteAmount := Some quoteAmount \<rparr>;
                        s1 = updOrder orderId
                               (\<lambda>x. updMeta (\<lambda>m. m\<lparr> syntheticFill := Some
                                         \<lparr> sfCounterparty = counterpartyId, sfPrice = p,
                                           sfQuoteAmount = quoteAmount, sfFilledAt = ts \<rparr> \<rparr>)
                                      (snd (recordFill baseRemaining (Some p) counterpartyId ts x))) s;
                        s2 = recordTrade pairKey t s1
                    in do {
                      s3 \<leftarrow> upd pairKey p ((fromSource ''synthetic'')\<lparr> skipStopTrigger := True \<rparr>) s2;
                      s4 \<leftarrow> applyMarketBuyImpact upd E orderId pairKey p baseRemaining s3;
                      Some (Some t,
                            registerTrade E (baseToken ord) (quoteToken ord) p baseRemaining
                              quoteAmount (if isSell ord then SELL else BUY) ''synthetic'' s4)
                    }))"

definition rejectInsufficient :: "rat \<Rightarrow> order \<Rightarrow> order" where
  "rejectInsufficient totalFillable ord =
     (updMeta (\<lambda>m. m\<lparr> rejectReason := Some ''INSUFFICIENT_LIQUIDITY'',
                      availableVolume := Some totalFillable \<rparr>) ord)\<lparr> status := REJECTED \<rparr>"

definition handleLimitOrder ::
  "updater \<Rightarrow> env \<Rightarrow> nat \<Rightarrow> string \<Rightarrow> string \<Rightarrow> engine \<Rightarrow> (trade list \<times> engine) option" where
  "handleLimitOrder upd E n orderId pairKey s =
     (case orders s orderId of
        None \<Rightarrow> None
      | Some ord0 \<Rightarrow>
          let restingMarketOpposite = (if isBuy ord0 then LMarketSell else LMarketBuy);
              opposite = (if isBuy ord0 then LSell else LBuy)
          in do {
            (t1, s1) \<leftarrow> (if listOf s pairKey restingMarketOpposite \<noteq> []
                          then matchOrder upd E n pairKey orderId restingMarketOpposite (\<lambda>maker. True) s
                          else Some ([], s));
            ord1 \<leftarrow> orders s1 orderId;
            if timeInForce ord1 = POST_ONLY
               \<and> (case listOf s1 pairKey opposite of
                     [] \<Rightarrow> False
                   | bestOpposite # _ \<Rightarrow>
                       (case orders s1 bestOpposite of
                          None \<Rightarrow> False
                        | Some best \<Rightarrow> priceCondition ord1 best))
            then Some ([], updOrder orderId
                             (\<lambda>x. (updMeta (\<lambda>m. m\<lparr> rejectReason := Some ''POST_ONLY_WOULD_TRADE'' \<rparr>) x)
                                     \<lparr> status := REJECTED \<rparr>) s1)
            else
              let totalFillable =
                    calculateFillableVolume s1 (listOf s1 pairKey restingMarketOpposite) (\<lambda>maker. True)
                    + calculateFillableVolume s1 (listOf s1 pairKey opposite) (priceCondition ord1)
              in if (timeInForce ord1 = FOK \<or> allowPartialFill ord1 = False)
                    \<and> totalFillable < remaining ord1
                 then Some ([], updOrder orderId (rejectInsufficient totalFillable) s1)
                 else
                   do {
                     (t2, s2) \<leftarrow> matchOrder upd E n pairKey orderId opposite (priceCondition ord1) s1;
                     ord2 \<leftarrow> orders s2 orderId;
                     Some (t1 @ t2,
                       if remaining ord2 > 0 then
                         (if timeInForce ord2 = IOC then
                            updOrder orderId
                              (\<lambda>x. (updMeta (\<lambda>m. m\<lparr> unfilledAmount := Some (remaining x),
                                                     cancelReason := Some ''IOC_UNFILLED'' \<rparr>) x)
                                      \<lparr> status := (if filled x > 0 then PARTIAL else REJECTED) \<rparr>) s2
                          else if timeInForce ord2 = FOK \<or> allowPartialFill ord2 = False then
                            updOrder orderId
                              (\<lambda>x. (updMeta (\<lambda>m. m\<lparr> unfilledAmount := Some (remaining x) \<rparr>) x)
                                      \<lparr> status := (if filled x > 0 then PARTIAL else REJECTED) \<rparr>) s2
                          else restOnBook pairKey orderId (if isBuy ord2 then LBuy else LSell)
                                 (side ord2) s2)
                       else updOrder orderId (\<lambda>x. x\<lparr> status := FILLED \<rparr>) s2)
                   }
          })"

definition handleMarketOrder ::
  "updater \<Rightarrow> env \<Rightarrow> nat \<Rightarrow> string \<Rightarrow> string \<Rightarrow> engine \<Rightarrow> (trade list \<times> engine) option" where
  "handleMarketOrder upd E n orderId pairKey s =
     (case orders s orderId of
        None \<Rightarrow> None
      | Some ord0 \<Rightarrow>
          let restingMarketOpposite = (if isBuy ord0 then LMarketSell else LMarketBuy);
              opposite = (if isBuy ord0 then LSell else LBuy)
          in do {
            (t1, s1) \<leftarrow> (if listOf s pairKey restingMarketOpposite \<noteq> []
                          then matchOrder upd E n pairKey orderId restingMarketOpposite (\<lambda>maker. True) s
                          else Some ([], s));
            ord1 \<leftarrow> orders s1 orderId;
            let totalFillable =
                  calculateFillableVolume s1 (listOf s1 pairKey restingMarketOpposite) (\<lambda>maker. True)
                  + calculateFillableVolume s1 (listOf s1 pairKey opposite) (\<lambda>maker. True)
            in if (timeInForce ord1 = FOK \<or> allowPartialFill ord1 = False)
                  \<and> totalFillable < remaining ord1 \<and> \<not> shouldUseSyntheticLiquidity s1 ord1
               then Some ([], updOrder orderId (rejectInsufficient totalFillable) s1)
               else
                 do {
                   (t2, s2) \<leftarrow> (if remaining ord1 > 0
                                 then matchOrder upd E n pairKey orderId opposite (\<lambda>maker. True) s1
                                 else Some ([], s1));
                   ord2 \<leftarrow> orders s2 orderId;
                   (t3, s3) \<leftarrow> (if remaining ord2 > 0 \<and> shouldUseSyntheticLiquidity s2 ord2
                                 then fillWithSyntheticLiquidity upd E orderId pairKey s2
                                 else Some (None, s2));
                   ord3 \<leftarrow> orders s3 orderId;
                   Some (t1 @ t2 @ (case t3 of None \<Rightarrow> [] | Some t \<Rightarrow> [t]),
                     if remaining ord3 > 0 then
                       (let s4 = updOrder orderId
                                   (updMeta (\<lambda>m. m\<lparr> unfilledAmount := Some (remaining ord3) \<rparr>)) s3
                        in if timeInForce ord3 = IOC then
                             updOrder orderId
                               (\<lambda>x. (updMeta (\<lambda>m. m\<lparr> cancelReason := Some ''IOC_UNFILLED'' \<rparr>) x)
                                       \<lparr> status := (if filled x > 0 then PARTIAL else REJECTED) \<rparr>) s4
                           else if timeInForce ord3 = FOK \<or> allowPartialFill ord3 = False then
                             updOrder orderId
                               (\<lambda>x. x\<lparr> status := (if filled x > 0 then PARTIAL else REJECTED) \<rparr>) s4
                           else restMarketOrder E pairKey orderId s4)
                     else updOrder orderId (\<lambda>x. x\<lparr> status := FILLED \<rparr>) s3)
                 }
          })"

text \<open>The loop of \<open>_matchTriggeredStopLoss\<close> over the two local queues.\<close>

primrec matchTriggeredStopLoss ::
  "updater \<Rightarrow> env \<Rightarrow> nat \<Rightarrow> string list \<Rightarrow> string list \<Rightarrow> string \<Rightarrow> trigger_context
     \<Rightarrow> trade_map \<Rightarrow> engine \<Rightarrow> (trade_map \<times> engine) option" where
  "matchTriggeredStopLoss upd E 0 buyQueue sellQueue pairKey ctx tm s = None"
| "matchTriggeredStopLoss upd E (Suc n) buyQueue sellQueue pairKey ctx tm s =
     (case buyQueue of
        [] \<Rightarrow> Some (tm, s)
      | buyId # buyRest \<Rightarrow>
          (case sellQueue of
             [] \<Rightarrow> Some (tm, s)
           | sellId # sellRest \<Rightarrow>
               (case (orders s buyId, orders s sellId) of
                  (Some buyOrder, Some sellOrder) \<Rightarrow>
                    let fillAmt = determineTriggeredStopFillAmount buyOrder sellOrder
                    in if \<not> (fillAmt > 0) then
                         (if remaining buyOrder > remaining sellOrder
                          then matchTriggeredStopLoss upd E n buyQueue sellRest pairKey ctx tm s
                          else if remaining sellOrder > remaining buyOrder
                          then matchTriggeredStopLoss upd E n buyRest sellQueue pairKey ctx tm s
                          else if nullToZero (minFillAmount buyOrder) \<ge> nullToZero (minFillAmount sellOrder)
                          then matchTriggeredStopLoss upd E n buyRest sellQueue pairKey ctx tm s
                          else matchTriggeredStopLoss upd E n buyQueue sellRest pairKey ctx tm s)
                       else
                         (case resolveTriggeredTradePrice s buyOrder sellOrder pairKey ctx of
                            None \<Rightarrow> Some (tm, s)
                          | Some tp \<Rightarrow>
                              if tp \<le> 0 then Some (tm, s)
                              else
                                let ts = clock E;
                                    s1 = updOrder buyId
                                           (\<lambda>x. snd (recordFill fillAmt (Some tp) (oid sellOrder) ts x)) s;
                                    s2 = updOrder sellId
                                           (\<lambda>x. snd (recordFill fillAmt (Some tp) (oid buyOrder) ts x)) s1;
                                    s3 = updOrder sellId (noteLastTrade tp ts)
                                           (updOrder buyId (noteLastTrade tp ts) s2);
                                    makerOrder = determineTriggeredStopMaker buyOrder sellOrder;
                                    takerOrder = (if oid makerOrder = oid buyOrder then sellOrder else buyOrder);
                                    t = mkTrade tp fillAmt (oid buyOrder) (oid sellOrder)
                                          (oid makerOrder) (oid takerOrder) ts;
                                    s4 = recordTrade pairKey t s3
                                in (case upd pairKey tp
                                           ((fromSource ''stop-trigger'')\<lparr> skipStopTrigger := True \<rparr>) s4 of
                                      None \<Rightarrow> None
                                    | Some s5 \<Rightarrow>
                                        let s6 = registerTrade E (baseToken buyOrder) (quoteToken buyOrder)
                                                   tp fillAmt (fillAmt * tp)
                                                   (if isSell takerOrder then SELL else BUY)
                                                   ''stop-trigger'' s5;
                                            tm1 = tmAppend (tmAppend tm (oid buyOrder) [t]) (oid sellOrder) [t];
                                            buyQueue' = (case orders s6 buyId of
                                                           Some b \<Rightarrow> if remaining b \<le> 0 then buyRest else buyQueue
                                                         | None \<Rightarrow> buyQueue);
                                            sellQueue' = (case orders s6 sellId of
                                                            Some a \<Rightarrow> if remaining a \<le> 0 then sellRest else sellQueue
                                                          | None \<Rightarrow> sellQueue)
                                        in matchTriggeredStopLoss upd E n buyQueue' sellQueue' pairKey ctx tm1 s6))
                | _ \<Rightarrow> None)))"

section \<open>Stop orders\<close>

text \<open>
  The two \<open>for\<close> loops of \<open>_processTriggeredStops\<close> that route the triggered
  entries into the limit or the market path; \<open>handle\<close> is that path.
\<close>

fun routeTriggered ::
  "(string \<Rightarrow> engine \<Rightarrow> (trade list \<times> engine) option) \<Rightarrow> string list \<Rightarrow> trade_map
     \<Rightarrow> engine \<Rightarrow> (trade_map \<times> engine) option" where
  "routeTriggered handle [] tm s = Some (tm, s)"
| "routeTriggered handle (i # rest) tm s =
     (case orders s i of
        None \<Rightarrow> None
      | Some ord \<Rightarrow>
          if remaining ord \<le> 0 then routeTriggered handle rest tm s
          else
            (case handle i s of
               None \<Rightarrow> None
             | Some (ts, s1) \<Rightarrow>
                 routeTriggered handle rest (if ts \<noteq> [] then tmAppend tm i ts else tm) s1))"

definition markEntry :: "trigger_context \<Rightarrow> string \<times> order_type \<Rightarrow> engine \<Rightarrow> engine" where
  "markEntry ctx entry s =
     updOrder (fst entry)
       (\<lambda>x. (prepareTriggeredStopMetadata ctx x)
               \<lparr> orderType := (if snd entry = STOP_LOSS then MARKET else LIMIT) \<rparr>) s"

definition attachTrades :: "trade_map \<Rightarrow> string \<times> order_type \<Rightarrow> engine \<Rightarrow> engine" where
  "attachTrades tm entry s =
     (if tmGet tm (fst entry) \<noteq> []
      then updOrder (fst entry)
             (updMeta (\<lambda>m. m\<lparr> trades := Some ((case trades m of None \<Rightarrow> [] | Some ex \<Rightarrow> ex)
                                               @ tmGet tm (fst entry)) \<rparr>)) s
      else s)"

definition processTriggeredStops ::
  "updater \<Rightarrow> env \<Rightarrow> nat \<Rightarrow> (string \<times> order_type) list \<Rightarrow> string \<Rightarrow> trigger_context
     \<Rightarrow> engine \<Rightarrow> (trade_map \<times> engine) option" where
  "processTriggeredStops upd E n entries pairKey ctx s =
     (if entries = [] then Some ([], s)
      else
        let s1 = fold (markEntry ctx) entries s;
            stopLimitEntries = map fst (filter (\<lambda>e. snd e = STOP_LIMIT) entries);
            stopLossEntries = map fst (filter (\<lambda>e. snd e = STOP_LOSS) entries)
        in do {
          (tm1, s2) \<leftarrow> routeTriggered (\<lambda>i. handleLimitOrder upd E n i pairKey) stopLimitEntries [] s1;
          (tm3, s4) \<leftarrow>
             (if stopLossEntries = [] then Some (tm1, s2)
              else
                do {
                  (pairTrades, s3) \<leftarrow>
                     matchTriggeredStopLoss upd E n
                       (filter (\<lambda>i. case orders s2 i of None \<Rightarrow> False | Some x \<Rightarrow> isBuy x) stopLossEntries)
                       (filter (\<lambda>i. case orders s2 i of None \<Rightarrow> False | Some x \<Rightarrow> isSell x) stopLossEntries)
                       pairKey ctx [] s2;
                  routeTriggered (\<lambda>i. handleMarketOrder upd E n i pairKey) stopLossEntries
                    (fold (\<lambda>(i, ts) tm. tmAppend tm i ts) pairTrades tm1) s3
                });
          Some (tm3, fold (attachTrades tm3) entries s4)
        })"

definition triggerStopOrders ::
  "updater \<Rightarrow> env \<Rightarrow> nat \<Rightarrow> string \<Rightarrow> rat \<Rightarrow> rat option \<Rightarrow> engine \<Rightarrow> engine option" where
  "triggerStopOrders upd E n pairKey p previousPrice s =
     (case orderBooks s pairKey of
        None \<Rightarrow> Some s
      | Some book \<Rightarrow>
          let ctx = buildTriggerContext E (getMarketPriceSnapshotFromKey s pairKey) p previousPrice;
              fires = (\<lambda>i. case orders s i of None \<Rightarrow> False | Some x \<Rightarrow> shouldTriggerStop x p);
              triggered = map (\<lambda>i. (i, STOP_LOSS)) (filter fires (stopLoss book))
                          @ map (\<lambda>i. (i, STOP_LIMIT)) (filter fires (stopLimit book));
              s1 = s\<lparr> orderBooks := (orderBooks s)(pairKey \<mapsto>
                          book\<lparr> stopLoss := filter (\<lambda>i. \<not> fires i) (stopLoss book),
                                stopLimit := filter (\<lambda>i. \<not> fires i) (stopLimit book) \<rparr>) \<rparr>
          in if triggered = [] then Some s1
             else map_option snd (processTriggeredStops upd E n triggered pairKey ctx s1))"

text \<open>\<open>_updateMarketPriceInternal(pairKey, price, metadata)\<close>.\<close>

primrec updateMarketPriceInternal ::
  "env \<Rightarrow> nat \<Rightarrow> string \<Rightarrow> rat \<Rightarrow> price_update \<Rightarrow> engine \<Rightarrow> engine option" where
  "updateMarketPriceInternal E 0 pairKey p m s = None"
| "updateMarketPriceInternal E (Suc n) pairKey p m s =
     (if p \<le> 0 then Some s
      else
        (case setPriceAndInverse E pairKey p m s of
           (s1, inverseEntry, previousPrice) \<Rightarrow>
             if skipStopTrigger m then Some s1
             else
               do {
                 s2 \<leftarrow> (case inverseEntry of
                          None \<Rightarrow> Some s1
                        | Some (inverseKey, inversePrice, previousInverse) \<Rightarrow>
                            triggerStopOrders (updateMarketPriceInternal E n) E n
                              inverseKey inversePrice previousInverse s1);
                 triggerStopOrders (updateMarketPriceInternal E n) E n pairKey p previousPrice s2
               }))"

definition queueStopOrder ::
  "env \<Rightarrow> nat \<Rightarrow> string \<Rightarrow> list_name \<Rightarrow> string \<Rightarrow> engine \<Rightarrow> (trade list \<times> engine) option" where
  "queueStopOrder E n orderId listName pairKey s =
     (case orders s orderId of
        None \<Rightarrow> None
      | Some ord \<Rightarrow>
          if stopPrice ord = None then
            Some ([], updOrder orderId
                        (\<lambda>x. (updMeta (\<lambda>m. m\<lparr> rejectReason := Some ''INVALID_STOP_PRICE'' \<rparr>) x)
                                \<lparr> status := REJECTED \<rparr>) s)
          else
            let s1 = updOrder orderId
                       (\<lambda>x. (updMeta (\<lambda>m. m\<lparr> queuedAt := Some (clock E) \<rparr>) x)\<lparr> status := PENDING \<rparr>) s;
                s2 = putList pairKey listName (listOf s1 pairKey listName @ [orderId]) s1
            in if pairKey = [] then Some ([], s2)
               else
                 do {
                   s3 \<leftarrow> (if (case getMarketPriceSnapshotFromKey s2 pairKey of
                                None \<Rightarrow> False
                              | Some sn \<Rightarrow> snPrice sn > 0)
                          then Some s2
                          else
                            (case getCachedPairSnapshot E s2 (baseToken ord) (quoteToken ord) of
                               None \<Rightarrow> Some s2
                             | Some os \<Rightarrow>
                                 if osPrice os > 0
                                 then updateMarketPriceInternal E n pairKey (osPrice os)
                                        \<lparr> puSource = Some (if osSource os = [] then ''synthetic''
                                                            else osSource os),
                                          puUpdatedAt = osUpdatedAt os, puPreviousPrice = None,
                                          skipStopTrigger = False \<rparr> s2
                                 else Some s2));
                   ord3 \<leftarrow> orders s3 orderId;
                   (case getMarketPriceSnapshotFromKey s3 pairKey of
                      None \<Rightarrow> Some ([], s3)
                    | Some sn \<Rightarrow>
                        if snPrice sn > 0 \<and> shouldTriggerStop ord3 (snPrice sn)
                        then
                          let s4 = snd (removeFrom pairKey listName orderId s3);
                              ctx = buildTriggerContext E (Some sn) (snPrice sn)
                                      (positiveOrNull (snPreviousPrice sn));
                              stopType = (if listName = LStopLoss then STOP_LOSS else STOP_LIMIT)
                          in do {
                            (tm, s5) \<leftarrow> processTriggeredStops (updateMarketPriceInternal E n) E n
                                           [(orderId, stopType)] pairKey ctx s4;
                            Some (tmGet tm (oid ord3), s5)
                          }
                        else Some ([], s3))
                 })"

section \<open>Public operations of the matching service\<close>

datatype error =
    MissingTokens
  | InvalidMarketPrice
  | TooFewOrders
  | InvalidBatchOrder
  | NoRemainingAmount
  | NotActive
  | InvalidBatchPrice
  | MissingTokenInformation
  | InvalidConversionRate
  | OpenRing
  | InvalidAggregateRate
  | ImbalancedRates
  | NoRemainingLiquidity
  | InsufficientLiquidity
  | NonPositiveAmount
  | SettleImbalance
  | Overfill
  | PartialAllOrNothing

text \<open>
  \<open>addOrder(order)\<close>. The order object is put into the store under its id, which is
  where every later reference finds it; the result is the new state, or the error thrown.
\<close>

definition addOrder :: "env \<Rightarrow> nat \<Rightarrow> order \<Rightarrow> engine \<Rightarrow> (error + engine) option" where
  "addOrder E n ord s =
     (if baseToken ord = [] \<or> quoteToken ord = [] then Some (Inl MissingTokens)
      else
        let pairKey = getPairKey (baseToken ord) (quoteToken ord);
            s1 = getOrCreateOrderBook pairKey (s\<lparr> orders := (orders s)(oid ord \<mapsto> ord) \<rparr>)
        in (case (case orderType ord of
                    MARKET \<Rightarrow> handleMarketOrder (updateMarketPriceInternal E n) E n (oid ord) pairKey s1
                  | STOP_LOSS \<Rightarrow> queueStopOrder E n (oid ord) LStopLoss pairKey s1
                  | STOP_LIMIT \<Rightarrow> queueStopOrder E n (oid ord) LStopLimit pairKey s1
                  | LIMIT \<Rightarrow> handleLimitOrder (updateMarketPriceInternal E n) E n (oid ord) pairKey s1) of
              None \<Rightarrow> None
            | Some (ts, s2) \<Rightarrow>
                Some (Inr (if ts \<noteq> []
                           then updOrder (oid ord) (updMeta (\<lambda>m. m\<lparr> trades := Some ts \<rparr>)) s2
                           else s2))))"


text \<open>\<open>cancelOrder(order)\<close> of the matching service.\<close>

definition cancelOrder :: "order \<Rightarrow> engine \<Rightarrow> bool \<times> engine" where
  "cancelOrder ord s =
     (let pairKey = getPairKey (baseToken ord) (quoteToken ord)
      in (case orderBooks s pairKey of
            None \<Rightarrow> (False, s)
          | Some book \<Rightarrow>
              let (r1, s1) = removeFrom pairKey LBuy (oid ord) s;
                  (r2, s2) = removeFrom pairKey LSell (oid ord) s1;
                  (r3, s3) = removeFrom pairKey LStopLoss (oid ord) s2;
                  (r4, s4) = removeFrom pairKey LStopLimit (oid ord) s3
              in (r1 \<or> r2 \<or> r3 \<or> r4, s4)))"

definition cleanupOrderFromBooks :: "order \<Rightarrow> engine \<Rightarrow> engine" where
  "cleanupOrderFromBooks ord s =
     (if baseToken ord = [] \<or> quoteToken ord = [] then s
      else
        let pairKey = getPairKey (baseToken ord) (quoteToken ord)
        in (case orderBooks s pairKey of
              None \<Rightarrow> s
            | Some book \<Rightarrow>
                let s1 = (if isBuy ord
                          then snd (removeFrom pairKey LMarketBuy (oid ord)
                                      (snd (removeFrom pairKey LBuy (oid ord) s)))
                          else snd (removeFrom pairKey LMarketSell (oid ord)
                                      (snd (removeFrom pairKey LSell (oid ord) s))))
                in snd (removeFrom pairKey LStopLimit (oid ord)
                          (snd (removeFrom pairKey LStopLoss (oid ord) s1)))))"

definition getOrderBook :: "engine \<Rightarrow> string \<Rightarrow> string \<Rightarrow> order_book" where
  "getOrderBook s b q = bookOf s (getPairKey b q)"

section \<open>Batch execution\<close>

record batch_entry =
  neOrder :: string
  nePrice :: rat
  neRate :: rat
  neOfferToken :: string
  neRequestToken :: string
  neOfferTokenRaw :: string
  neRequestTokenRaw :: string
  neOfferRemaining :: rat
  neIsSell :: bool
  neAllowPartialFill :: bool

record batch_result =
  brBatchId :: string
  brOfferAmounts :: "rat list"
  brRequestAmounts :: "rat list"
  brTrades :: "trade list"
  brOrders :: "string list"

definition normalizeBatchOrder :: "engine \<Rightarrow> string \<Rightarrow> error + batch_entry" where
  "normalizeBatchOrder s orderId =
     (case orders s orderId of
        None \<Rightarrow> Inl InvalidBatchOrder
      | Some ord \<Rightarrow>
          if remaining ord \<le> 0 then Inl NoRemainingAmount
          else if status ord \<in> {CANCELLED, FILLED, REJECTED, EXPIRED} then Inl NotActive
          else
            let p = nullToZero (price ord)
            in if p \<le> 0 then Inl InvalidBatchPrice
               else
                 let offerToken = (if isSell ord then baseToken ord else quoteToken ord);
                     requestToken = (if isSell ord then quoteToken ord else baseToken ord)
                 in if offerToken = [] \<or> requestToken = [] then Inl MissingTokenInformation
                    else
                      let rate = (if isSell ord then p else 1 / p)
                      in if rate \<le> 0 then Inl InvalidConversionRate
                         else Inr \<lparr> neOrder = orderId, nePrice = p, neRate = rate,
                                    neOfferToken = toLowerCase offerToken,
                                    neRequestToken = toLowerCase requestToken,
                                    neOfferTokenRaw = offerToken,
                                    neRequestTokenRaw = requestToken,
                                    neOfferRemaining =
                                      (if isSell ord then remaining ord else remaining ord * p),
                                    neIsSell = isSell ord,
                                    neAllowPartialFill = allowPartialFill ord \<rparr>)"

fun normalizeAll :: "engine \<Rightarrow> string list \<Rightarrow> error + batch_entry list" where
  "normalizeAll s [] = Inr []"
| "normalizeAll s (i # rest) =
     (case normalizeBatchOrder s i of
        Inl e \<Rightarrow> Inl e
      | Inr entry \<Rightarrow> (case normalizeAll s rest of Inl e \<Rightarrow> Inl e | Inr es \<Rightarrow> Inr (entry # es)))"

definition closedLoop :: "batch_entry list \<Rightarrow> bool" where
  "closedLoop es =
     list_all (\<lambda>(current, next). neRequestToken current = neOfferToken next) (zip es (rotate1 es))"

text \<open>The loop that bounds \<open>maxOffer\<close> by each later order, from index 1 on.\<close>

fun computeMaxOffer :: "rat \<Rightarrow> rat \<Rightarrow> rat \<Rightarrow> batch_entry list \<Rightarrow> error + rat" where
  "computeMaxOffer cumulativeRate maxOffer previousRate [] = Inr maxOffer"
| "computeMaxOffer cumulativeRate maxOffer previousRate (entry # rest) =
     (let cumulativeRate' = cumulativeRate * previousRate;
          candidate = neOfferRemaining entry / cumulativeRate'
      in if \<not> (candidate > 0) then Inl InsufficientLiquidity
         else computeMaxOffer cumulativeRate' (min maxOffer candidate) (neRate entry) rest)"

text \<open>The loop that fills \<open>offerAmounts\<close> and \<open>requestAmounts\<close>.\<close>

fun computeAmounts :: "rat \<Rightarrow> batch_entry list \<Rightarrow> error + (rat \<times> rat) list" where
  "computeAmounts offerAmount [] = Inr []"
| "computeAmounts offerAmount (entry # rest) =
     (if \<not> (offerAmount > 0) then Inl NonPositiveAmount
      else
        let requestAmount = offerAmount * neRate entry
        in (case computeAmounts requestAmount rest of
              Inl e \<Rightarrow> Inl e
            | Inr later \<Rightarrow> Inr ((offerAmount, requestAmount) # later)))"

definition tagLastExecution :: "string \<Rightarrow> rat \<Rightarrow> rat \<Rightarrow> order \<Rightarrow> order" where
  "tagLastExecution bid offerAmount requestAmount ord =
     (case rev (executions ord) of
        [] \<Rightarrow> ord
      | e # earlier \<Rightarrow>
          ord\<lparr> executions := rev earlier @
                 [e\<lparr> exBatchId := Some bid, exOfferAmount := Some offerAmount,
                     exReceiveAmount := Some requestAmount \<rparr>] \<rparr>)"

text \<open>
  One pass of the last \<open>for\<close> loop of \<open>executeBatchTrades\<close>, on the legs that are
  left; each leg is the index, the entry, the next entry and its two amounts. An error is
  returned with the state as the legs before it left it.
\<close>

fun executeLegs ::
  "updater \<Rightarrow> env \<Rightarrow> rat \<Rightarrow> string
     \<Rightarrow> (nat \<times> batch_entry \<times> batch_entry \<times> rat \<times> rat) list \<Rightarrow> engine
     \<Rightarrow> ((error + trade list) \<times> engine) option" where
  "executeLegs upd E tolerance bid [] s = Some (Inr [], s)"
| "executeLegs upd E tolerance bid ((i, entry, nextEntry, offerAmount, requestAmount) # rest) s =
     (case orders s (neOrder entry) of
        None \<Rightarrow> None
      | Some ord \<Rightarrow>
          let baseFilled = (if neIsSell entry then offerAmount else requestAmount)
          in if baseFilled > remaining ord + tolerance then Some (Inl Overfill, s)
             else if neAllowPartialFill entry = False
                     \<and> \<bar>baseFilled - remaining ord\<bar> > tolerance
             then Some (Inl PartialAllOrNothing, s)
             else
               (case orders s (neOrder nextEntry) of
                  None \<Rightarrow> None
                | Some nextOrd \<Rightarrow>
                    let ts = clock E;
                        s1 = updOrder (neOrder entry)
                               (\<lambda>x. case recordFill baseFilled (Some (nePrice entry)) (oid nextOrd) ts x of
                                      (None, x') \<Rightarrow> x'
                                    | (Some e, x') \<Rightarrow> tagLastExecution bid offerAmount requestAmount x') s;
                        s2 = updOrder (neOrder entry)
                               (updMeta (\<lambda>m. m\<lparr> batchExecutions := Some
                                  ((case batchExecutions m of None \<Rightarrow> [] | Some ex \<Rightarrow> ex) @
                                   [\<lparr> beBatchId = bid, beIndex = i,
                                      beOfferToken = neOfferTokenRaw entry,
                                      beRequestToken = neRequestTokenRaw entry,
                                      beOfferAmount = offerAmount, beReceiveAmount = requestAmount,
                                      beExecutedAt = ts \<rparr>]) \<rparr>)) s1;
                        t = (mkTrade (nePrice entry) baseFilled
                               (if isBuy ord then oid ord else oid nextOrd)
                               (if isSell ord then oid ord else oid nextOrd)
                               (oid ord) (oid nextOrd) ts)\<lparr> batchId := Some bid \<rparr>;
                        pairKey = getPairKey (baseToken ord) (quoteToken ord);
                        s3 = recordTrade pairKey t s2
                    in (case upd pairKey (nePrice entry) (fromSource ''batch'') s3 of
                          None \<Rightarrow> None
                        | Some s4 \<Rightarrow>
                            let s5 = registerTrade E (baseToken ord) (quoteToken ord) (nePrice entry)
                                       baseFilled (baseFilled * nePrice entry)
                                       (if isSell ord then SELL else BUY) ''batch'' s4
                            in (case orders s5 (neOrder entry) of
                                  None \<Rightarrow> None
                                | Some ord' \<Rightarrow>
                                    (case executeLegs upd E tolerance bid rest
                                            (if remaining ord' \<le> tolerance
                                             then cleanupOrderFromBooks ord' s5 else s5) of
                                       None \<Rightarrow> None
                                     | Some (Inl e, s') \<Rightarrow> Some (Inl e, s')
                                     | Some (Inr ts', s') \<Rightarrow> Some (Inr (t # ts'), s'))))))"

definition executeBatchTrades ::
  "env \<Rightarrow> nat \<Rightarrow> string list \<Rightarrow> rat option \<Rightarrow> engine
     \<Rightarrow> ((error + batch_result) \<times> engine) option" where
  "executeBatchTrades E n orderList toleranceOpt s =
     (if length orderList < 2 then Some (Inl TooFewOrders, s)
      else
        let tolerance = (case toleranceOpt of None \<Rightarrow> 1 / 10 ^ 8 | Some t \<Rightarrow> \<bar>t\<bar>)
        in (case normalizeAll s orderList of
              Inl e \<Rightarrow> Some (Inl e, s)
            | Inr normalizedOrders \<Rightarrow>
                if \<not> closedLoop normalizedOrders then Some (Inl OpenRing, s)
                else
                  let totalRate = foldl (\<lambda>acc entry. acc * neRate entry) 1 normalizedOrders
                  in if totalRate \<le> 0 then Some (Inl InvalidAggregateRate, s)
                     else if \<bar>totalRate - 1\<bar> > tolerance then Some (Inl ImbalancedRates, s)
                     else
                       (case normalizedOrders of
                          [] \<Rightarrow> Some (Inl TooFewOrders, s)
                        | first # others \<Rightarrow>
                            if \<not> (neOfferRemaining first > 0) then Some (Inl NoRemainingLiquidity, s)
                            else
                              (case computeMaxOffer 1 (neOfferRemaining first) (neRate first) others of
                                 Inl e \<Rightarrow> Some (Inl e, s)
                               | Inr maxOffer \<Rightarrow>
                                   if \<not> (maxOffer > 0) then Some (Inl InsufficientLiquidity, s)
                                   else
                                     (case computeAmounts maxOffer normalizedOrders of
                                        Inl e \<Rightarrow> Some (Inl e, s)
                                      | Inr amounts \<Rightarrow>
                                          if \<bar>snd (last amounts) - fst (hd amounts)\<bar> > tolerance
                                          then Some (Inl SettleImbalance, s)
                                          else
                                            (case executeLegs (updateMarketPriceInternal E n) E tolerance
                                                    (randomUUID E)
                                                    (zip [0 ..< length normalizedOrders]
                                                       (zip normalizedOrders
                                                          (zip (rotate1 normalizedOrders) amounts)))
                                                    s of
                                               None \<Rightarrow> None
                                             | Some (Inl e, s') \<Rightarrow> Some (Inl e, s')
                                             | Some (Inr ts, s') \<Rightarrow>
                                                 Some (Inr \<lparr> brBatchId = randomUUID E,
                                                             brOfferAmounts = map fst amounts,
                                                             brRequestAmounts = map snd amounts,
                                                             brTrades = ts,
                                                             brOrders = map neOrder normalizedOrders \<rparr>,
                                                       s')))))))"

section \<open>Order service (order.service.js)\<close>

definition getOrder :: "engine \<Rightarrow> string \<Rightarrow> order option" where
  "getOrder s i = (if i = [] then None else orders s i)"

text \<open>\<open>OrderService.cancelOrder(id, reason)\<close>.\<close>

definition serviceCancelOrder :: "env \<Rightarrow> string \<Rightarrow> string \<Rightarrow> engine \<Rightarrow> order option \<times> engine" where
  "serviceCancelOrder E i reason s =
     (case getOrder s i of
        None \<Rightarrow> (None, s)
      | Some ord \<Rightarrow>
          if status ord \<in> {CANCELLED, FILLED, REJECTED, EXPIRED} then (Some ord, s)
          else
            let s1 = updOrder i (cancel reason (clock E)) (snd (cancelOrder ord s))
            in (orders s1 i, s1))"

text \<open>
  The object that \<open>_serializeOrderBook\<close> builds, as its keys in order with the value of
  each: a list of serialized orders or of trades.
\<close>

datatype collection = Orders "order list" | Trades "trade list"

definition serializeOrderBook :: "engine \<Rightarrow> order_book \<Rightarrow> (string \<times> collection) list" where
  "serializeOrderBook s book =
     [(''buy'', Orders (List.map_filter (orders s) (buy book))),
      (''sell'', Orders (List.map_filter (orders s) (sell book))),
      (''stopLoss'', Orders (List.map_filter (orders s) (stopLoss book))),
      (''stopLimit'', Orders (List.map_filter (orders s) (stopLimit book))),
      (''trades'', Trades (bookTrades book))]"

text \<open>\<open>OrderService.getOrderBook(baseToken, quoteToken)\<close> with both tokens given.\<close>

definition serviceGetOrderBook :: "engine \<Rightarrow> string \<Rightarrow> string \<Rightarrow> (string \<times> collection) list" where
  "serviceGetOrderBook s b q = serializeOrderBook s (getOrderBook s b q)"

section \<open>Price oracle: unit value of a token\<close>

record token_meta =
  tmAddress :: "string option"
  tmSymbol :: "string option"
  tmName :: "string option"
  tmDecimals :: "int option"
  tmTotalSupply :: "int option"

text \<open>
  \<open>parseSupply\<close>: the total supply in whole tokens. \<open>tmTotalSupply\<close> is \<open>None\<close>
  when the field is missing or \<open>BigInt\<close> throws on it; \<open>tmDecimals\<close> is the value of
  \<open>meta.decimals\<close> when \<open>Number.isInteger\<close> holds of it.
\<close>

definition parseSupply :: "env \<Rightarrow> token_meta \<Rightarrow> rat option" where
  "parseSupply E meta =
     (case tmTotalSupply meta of
        None \<Rightarrow> None
      | Some supplyBigInt \<Rightarrow>
          let decimals = (case tmDecimals meta of None \<Rightarrow> 18 | Some d \<Rightarrow> d)
          in if \<not> (supplyBigInt > 0) then None
             else (case formatUnits E supplyBigInt decimals of
                     Some (Fin formatted) \<Rightarrow> if \<not> (formatted > 0) then None else Some formatted
                   | _ \<Rightarrow> None))"

text \<open>
  \<open>deterministicMultiplier\<close>; \<open>digest32\<close> is the first four bytes, read big-endian, of
  the SHA-256 digest that \<open>crypto\<close> computes for the seed.
\<close>

definition upperSymbol :: "env \<Rightarrow> token_meta \<Rightarrow> string" where
  "upperSymbol E meta = (case tmSymbol meta of None \<Rightarrow> [] | Some x \<Rightarrow> toUpperCase E x)"

definition seedOf :: "env \<Rightarrow> token_meta \<Rightarrow> string \<Rightarrow> string" where
  "seedOf E meta fallbackAddress =
     (let address = normalizeAddress E
                      (case tmAddress meta of
                         None \<Rightarrow> fallbackAddress
                       | Some a \<Rightarrow> if a = [] then fallbackAddress else a);
          symbol = upperSymbol E meta;
          name = (case tmName meta of None \<Rightarrow> [] | Some x \<Rightarrow> toUpperCase E x)
      in address @ ''|'' @ symbol @ ''|'' @ name)"

definition deterministicMultiplier ::
  "(string \<Rightarrow> 32 word) \<Rightarrow> env \<Rightarrow> token_meta \<Rightarrow> string \<Rightarrow> rat" where
  "deterministicMultiplier digest32 E meta fallbackAddress =
     (let symbol = upperSymbol E meta;
          seed = seedOf E meta fallbackAddress;
          bucket = unat (digest32 (if seed = [] then ''synthetic-price'' else seed));
          fraction = of_nat bucket / 4294967295;
          base = 1 / 2 + fraction * (3 / 2);
          symbolFactor = (if symbol \<noteq> [] then 1 + of_nat (length symbol mod 5) * (5 / 100) else 1)
      in base * symbolFactor)"

definition deriveUnitValue ::
  "(string \<Rightarrow> 32 word) \<Rightarrow> env \<Rightarrow> token_meta \<Rightarrow> string \<Rightarrow> rat" where
  "deriveUnitValue digest32 E meta fallbackAddress =
     (let i0 = (case parseSupply E meta of
                  None \<Rightarrow> None
                | Some supply \<Rightarrow> if supply > 0 then Some (1 / supply) else None);
          i1 = (case i0 of None \<Rightarrow> 1 | Some v \<Rightarrow> if \<not> (v > 0) then 1 else v);
          i2 = i1 * deterministicMultiplier digest32 E meta fallbackAddress;
          i3 = (if \<not> (i2 > 0) then 1 else i2);
          clampMin = 1 / 10 ^ 12;
          clampMax = 10 ^ 12
      in if i3 < clampMin then clampMin else if i3 > clampMax then clampMax else i3)"

subsection \<open>The unit value as the specification defines it\<close>

definition clamp :: "rat \<Rightarrow> rat \<Rightarrow> rat \<Rightarrow> rat" where
  "clamp x lo hi = max lo (min hi x)"

definition spec_f :: "(string \<Rightarrow> 32 word) \<Rightarrow> env \<Rightarrow> token_meta \<Rightarrow> string \<Rightarrow> rat" where
  "spec_f digest32 E meta fallbackAddress =
     of_nat (unat (digest32 (seedOf E meta fallbackAddress))) / 2 ^ 32"

definition spec_m :: "(string \<Rightarrow> 32 word) \<Rightarrow> env \<Rightarrow> token_meta \<Rightarrow> string \<Rightarrow> rat" where
  "spec_m digest32 E meta fallbackAddress =
     (1 / 2 + spec_f digest32 E meta fallbackAddress)
       * (1 + of_nat (length (case tmSymbol meta of None \<Rightarrow> [] | Some x \<Rightarrow> x) mod 5) * (5 / 100))"

definition spec_base :: "token_meta \<Rightarrow> rat" where
  "spec_base meta =
     (case tmTotalSupply meta of
        None \<Rightarrow> 1
      | Some t \<Rightarrow> if t > 0 then 1 / of_int t else 1)"

definition spec_uv :: "(string \<Rightarrow> 32 word) \<Rightarrow> env \<Rightarrow> token_meta \<Rightarrow> string \<Rightarrow> rat" where
  "spec_uv digest32 E meta fallbackAddress =
     clamp (spec_m digest32 E meta fallbackAddress * spec_base meta) (1 / 10 ^ 12) (10 ^ 12)"

subsection \<open>The unit value as the code computes it, in the specification's form\<close>

text \<open>
  \<open>code_f\<close> divides by \<open>0xffffffff\<close>; \<open>code_m\<close> scales it by 1.5 and takes the length of
  the symbol in upper case; \<open>supplyOf\<close> is the supply in whole tokens, the number read from
  \<open>ethers.formatUnits(totalSupply, decimals)\<close> with 18 decimals unless the metadata holds
  an integer, when it is finite.
\<close>

definition code_f :: "(string \<Rightarrow> 32 word) \<Rightarrow> env \<Rightarrow> token_meta \<Rightarrow> string \<Rightarrow> rat" where
  "code_f digest32 E meta fallbackAddress =
     of_nat (unat (digest32 (seedOf E meta fallbackAddress))) / (2 ^ 32 - 1)"

definition symbolFactorOf :: "env \<Rightarrow> token_meta \<Rightarrow> rat" where
  "symbolFactorOf E meta = 1 + of_nat (length (upperSymbol E meta) mod 5) * (5 / 100)"

definition code_m :: "(string \<Rightarrow> 32 word) \<Rightarrow> env \<Rightarrow> token_meta \<Rightarrow> string \<Rightarrow> rat" where
  "code_m digest32 E meta fallbackAddress =
     (1 / 2 + (3 / 2) * code_f digest32 E meta fallbackAddress) * symbolFactorOf E meta"

definition supplyOf :: "env \<Rightarrow> token_meta \<Rightarrow> rat option" where
  "supplyOf E meta =
     (case tmTotalSupply meta of
        None \<Rightarrow> None
      | Some t \<Rightarrow>
          (case formatUnits E t (case tmDecimals meta of None \<Rightarrow> 18 | Some d \<Rightarrow> d) of
             Some (Fin s) \<Rightarrow> Some s
           | _ \<Rightarrow> None))"

definition code_base :: "env \<Rightarrow> token_meta \<Rightarrow> rat" where
  "code_base E meta =
     (case tmTotalSupply meta of
        None \<Rightarrow> 1
      | Some t \<Rightarrow>
          (case supplyOf E meta of
             None \<Rightarrow> 1
           | Some s \<Rightarrow> if t > 0 \<and> s > 0 then 1 / s else 1))"

definition code_uv :: "(string \<Rightarrow> 32 word) \<Rightarrow> env \<Rightarrow> token_meta \<Rightarrow> string \<Rightarrow> rat" where
  "code_uv digest32 E meta fallbackAddress =
     clamp (code_m digest32 E meta fallbackAddress * code_base E meta) (1 / 10 ^ 12) (10 ^ 12)"

section \<open>Concrete states and inputs\<close>

text \<open>
  \<open>ethers.formatUnits(value, decimals)\<close> of ethers v6, read by \<open>Number\<close>: the decimal
  fraction \<open>value / 10^decimals\<close> for decimals from 1 to 80 and the digits of the value
  itself for decimals that are zero or negative; it throws when the decimals exceed 80 or
  are not a safe integer, and when the value does not fit 512 bits. \<open>Number\<close> rounds the
  decimal to the nearest double.
\<close>

definition ethersFormatUnits :: "int \<Rightarrow> int \<Rightarrow> double option" where
  "ethersFormatUnits v d =
     (if d < - (2 ^ 53 - 1) \<or> 80 < d \<or> v < - (2 ^ 511) \<or> 2 ^ 511 \<le> v then None
      else if d \<le> 0 then Some (roundDouble (of_int v))
      else Some (roundDouble (of_int v / 10 ^ nat d)))"

text \<open>\<open>String.prototype.toUpperCase\<close> on ASCII strings, as the inputs below are.\<close>

definition upperChar :: "char \<Rightarrow> char" where
  "upperChar c =
     (case map_of (zip ''abcdefghijklmnopqrstuvwxyz'' ''ABCDEFGHIJKLMNOPQRSTUVWXYZ'') c of
        None \<Rightarrow> c | Some u \<Rightarrow> u)"

definition asciiUpperCase :: "string \<Rightarrow> string" where
  "asciiUpperCase str = map upperChar str"

definition testEnv :: env where
  "testEnv = \<lparr> clock = 1000, getAddress = (\<lambda>a. None), randomHex = ''00000000'',
               randomUUID = ''batch-1'', formatUnits = ethersFormatUnits,
               toUpperCase = asciiUpperCase \<rparr>"

text \<open>The state an operation returns, when it returns without an error.\<close>

definition stateOf :: "(error + engine) option \<Rightarrow> engine option" where
  "stateOf r = (case r of Some (Inr s) \<Rightarrow> Some s | _ \<Rightarrow> None)"

text \<open>Observations of a state, with the state as the last argument.\<close>

definition statusAt :: "string \<Rightarrow> engine \<Rightarrow> status_t option" where
  "statusAt i s = map_option status (orders s i)"

definition filledAt :: "string \<Rightarrow> engine \<Rightarrow> rat option" where
  "filledAt i s = map_option filled (orders s i)"

definition executionsAt :: "string \<Rightarrow> engine \<Rightarrow> nat option" where
  "executionsAt i s = map_option (\<lambda>x. length (executions x)) (orders s i)"

definition cancelReasonAt :: "string \<Rightarrow> engine \<Rightarrow> string option" where
  "cancelReasonAt i s = Option.bind (orders s i) (\<lambda>x. cancelReason (metadata x))"




definition listAt :: "string \<Rightarrow> list_name \<Rightarrow> engine \<Rightarrow> string list" where
  "listAt pairKey nm s = listOf s pairKey nm"



definition keysAt :: "string \<Rightarrow> string \<Rightarrow> engine \<Rightarrow> string list" where
  "keysAt b q s = map fst (serviceGetOrderBook s b q)"

text \<open>An operation applied to the state that the operations before it returned.\<close>

definition thenAdd :: "engine option \<Rightarrow> nat \<Rightarrow> order \<Rightarrow> engine option" where
  "thenAdd st n ord = Option.bind st (\<lambda>s. stateOf (addOrder testEnv n ord s))"


definition thenCancel :: "engine option \<Rightarrow> string \<Rightarrow> string \<Rightarrow> engine option" where
  "thenCancel st i reason = map_option (\<lambda>s. snd (serviceCancelOrder testEnv i reason s)) st"

definition thenBatch ::
  "engine option \<Rightarrow> nat \<Rightarrow> string list \<Rightarrow> ((error + batch_result) \<times> engine) option" where
  "thenBatch st n ids = Option.bind st (executeBatchTrades testEnv n ids None)"

definition plainToken :: token_meta where
  "plainToken = \<lparr> tmAddress = Some ''tok'', tmSymbol = Some ''AB'', tmName = Some ''Token'',
                  tmDecimals = None, tmTotalSupply = None \<rparr>"

definition suppliedToken :: token_meta where
  "suppliedToken = \<lparr> tmAddress = Some ''tok'', tmSymbol = Some ''AB'', tmName = Some ''Token'',
                     tmDecimals = Some 18, tmTotalSupply = Some (1000 * 10 ^ 18) \<rparr>"

definition errorOf :: "(error + 'a) \<Rightarrow> error option" where
  "errorOf r = (case r of Inl e \<Rightarrow> Some e | Inr x \<Rightarrow> None)"

definition restingMarketBuy :: order where
  "restingMarketBuy = newOrder ''bm'' ''AAA'' ''BBB'' BUY MARKET None 5 1"



definition batchSell :: order where
  "batchSell = newOrder ''A'' ''AAA'' ''BBB'' SELL LIMIT (Some 2) 10 1"

definition batchBuyStop :: order where
  "batchBuyStop =
     (newOrder ''B'' ''AAA'' ''BBB'' BUY STOP_LIMIT (Some 2) 20 2)
       \<lparr> stopPrice := Some 100, allowPartialFill := False \<rparr>"

definition batchState :: "engine option" where
  "batchState = thenAdd (thenAdd (Some emptyEngine) 1 batchSell) 1 batchBuyStop"

definition batchFailure :: "((error + batch_result) \<times> engine) option" where
  "batchFailure = thenBatch batchState 3 [''A'', ''B'']"










definition sellLimitFive :: order where
  "sellLimitFive = newOrder ''sl'' ''AAA'' ''BBB'' SELL LIMIT (Some 100) 5 2"

definition marketBuyResting :: "engine option" where
  "marketBuyResting = thenAdd (Some emptyEngine) 1 restingMarketBuy"

definition marketBuyCancelled :: "engine option" where
  "marketBuyCancelled = thenCancel marketBuyResting ''bm'' ''USER_CANCELLED''"















definition doubleOrder :: "double order_of" where
  "doubleOrder = newOrder ''a'' ''AAA'' ''BBB'' BUY LIMIT (Some (Fin 100)) (Fin 5) 1"

definition largeOrder :: "double order_of" where
  "largeOrder = (newOrder ''b'' ''AAA'' ''BBB'' BUY LIMIT (Some (Fin 100)) (Fin (2 ^ 54)) 1)
                   \<lparr> filled := Fin (2 ^ 53), status := PARTIAL \<rparr>"

section \<open>Properties of recordFill\<close>

lemma isNaN_double: "isNaN (x :: double) \<longleftrightarrow> x = DNaN"
  by (cases x) (simp_all add: isNaN_def)

lemma le_zero_double: "(x :: double) \<le> 0 \<longleftrightarrow> x = NegInf \<or> (\<exists>r. x = Fin r \<and> r \<le> 0)"
  by (cases x) (simp_all add: zero_double_def)

lemma isNaN_rat: "\<not> isNaN (x :: rat)"
  by (simp add: isNaN_def)

lemma recordFill_noop:
  "isNaN amt \<or> amt \<le> 0 \<Longrightarrow> recordFill amt p c ts ord = (None, ord)"
  by (simp add: recordFill_def)

lemma recordFill_fills:
  assumes "\<not> isNaN amt" "\<not> amt \<le> 0"
  shows "\<exists>e. fst (recordFill amt p c ts ord) = Some e \<and> exAmount e = amt
           \<and> executions (snd (recordFill amt p c ts ord)) = executions ord @ [e]"
    and "filled (snd (recordFill amt p c ts ord)) = filled ord + amt"
    and "updatedAt (snd (recordFill amt p c ts ord)) = ts"
  using assms by (simp_all add: recordFill_def Let_def)

text \<open>
  Claim C10, as stated: every fill amount that is not a positive finite number makes
  \<open>recordFill\<close> return \<open>null\<close> and leave the order as it was, and a positive amount
  increases \<open>filled\<close> by exactly that amount. The amount \<open>+Infinity\<close> passes the guard
  \<open>Number.isNaN(fillAmount) || fillAmount <= 0\<close>: an execution is appended, \<open>filled\<close>
  becomes \<open>+Infinity\<close> and the status FILLED. On an order of amount \<open>2^54\<close> with
  \<open>2^53\<close> filled, the positive amount 1 appends an execution and leaves \<open>filled\<close> at
  \<open>2^53\<close>, the double nearest to \<open>2^53 + 1\<close>.
\<close>

theorem C10_recordFill_counterexample:
  "map_option exAmount (fst (recordFill PosInf None ''m'' 7 doubleOrder)) = Some PosInf
   \<and> filled (snd (recordFill PosInf None ''m'' 7 doubleOrder)) = PosInf
   \<and> status (snd (recordFill PosInf None ''m'' 7 doubleOrder)) = FILLED
   \<and> length (executions (snd (recordFill PosInf None ''m'' 7 doubleOrder))) = 1
   \<and> map_option exAmount (fst (recordFill (Fin 1) None ''m'' 7 largeOrder)) = Some (Fin 1)
   \<and> length (executions (snd (recordFill (Fin 1) None ''m'' 7 largeOrder))) = 1
   \<and> filled (snd (recordFill (Fin 1) None ''m'' 7 largeOrder)) = Fin (2 ^ 53)
   \<and> filled largeOrder = Fin (2 ^ 53)"
  by code_simp

text \<open>
  Claim C10, amended: for every order and every fill amount \<open>x\<close>, the value of
  \<open>Number(amount)\<close>: when \<open>x\<close> is NaN, zero, negative or \<open>-Infinity\<close>, \<open>recordFill\<close>
  returns \<open>null\<close> and is a no-op (the order's filled amount, status, executions list and
  updatedAt are unchanged); when \<open>x\<close> is positive, \<open>+Infinity\<close> included, it appends one
  execution of amount \<open>x\<close>, sets updatedAt and sets \<open>filled\<close> to the double sum
  \<open>filled + x\<close>, which is rounded to the nearest double.
\<close>

theorem C10_recordFill_amended:
  fixes amt :: double and ord :: "double order_of"
  shows "((amt = DNaN \<or> amt = NegInf \<or> (\<exists>x. amt = Fin x \<and> x \<le> 0)) \<longrightarrow>
            recordFill amt p c ts ord = (None, ord))
       \<and> ((amt = PosInf \<or> (\<exists>x. amt = Fin x \<and> 0 < x)) \<longrightarrow>
            (\<exists>e. fst (recordFill amt p c ts ord) = Some e \<and> exAmount e = amt
                \<and> executions (snd (recordFill amt p c ts ord)) = executions ord @ [e])
            \<and> filled (snd (recordFill amt p c ts ord)) = filled ord + amt
            \<and> updatedAt (snd (recordFill amt p c ts ord)) = ts)"
proof (intro conjI impI)
  assume "amt = DNaN \<or> amt = NegInf \<or> (\<exists>x. amt = Fin x \<and> x \<le> 0)"
  then have "isNaN amt \<or> amt \<le> 0"
    unfolding isNaN_double le_zero_double by blast
  then show "recordFill amt p c ts ord = (None, ord)" by (rule recordFill_noop)
next
  assume h: "amt = PosInf \<or> (\<exists>x. amt = Fin x \<and> 0 < x)"
  then have n: "\<not> isNaN amt" and z: "\<not> amt \<le> 0"
    unfolding isNaN_double le_zero_double by auto
  from n z show "\<exists>e. fst (recordFill amt p c ts ord) = Some e \<and> exAmount e = amt
      \<and> executions (snd (recordFill amt p c ts ord)) = executions ord @ [e]"
    by (rule recordFill_fills(1))
  from n z show "filled (snd (recordFill amt p c ts ord)) = filled ord + amt"
    by (rule recordFill_fills(2))
  from n z show "updatedAt (snd (recordFill amt p c ts ord)) = ts"
    by (rule recordFill_fills(3))
qed

theorem C10_recordFill_amended_witness:
  "recordFill DNaN None ''m'' 7 doubleOrder = (None, doubleOrder)
   \<and> recordFill NegInf None ''m'' 7 doubleOrder = (None, doubleOrder)
   \<and> recordFill (Fin 0) None ''m'' 7 doubleOrder = (None, doubleOrder)
   \<and> recordFill (Fin (- 3)) None ''m'' 7 doubleOrder = (None, doubleOrder)
   \<and> filled (snd (recordFill (Fin 2) None ''m'' 7 doubleOrder)) = Fin 2
   \<and> filled (snd (recordFill PosInf None ''m'' 7 doubleOrder)) = PosInf
   \<and> fst (recordFill (Fin 2) None ''m'' 7 doubleOrder) \<noteq> None"
proof -
  have a: "recordFill DNaN None ''m'' 7 doubleOrder = (None, doubleOrder)"
    using C10_recordFill_amended [of DNaN None "''m''" 7 doubleOrder] by simp
  have b: "recordFill NegInf None ''m'' 7 doubleOrder = (None, doubleOrder)"
    using C10_recordFill_amended [of NegInf None "''m''" 7 doubleOrder] by simp
  have c: "recordFill (Fin 0) None ''m'' 7 doubleOrder = (None, doubleOrder)"
    using C10_recordFill_amended [of "Fin 0" None "''m''" 7 doubleOrder] by simp
  have d: "recordFill (Fin (- 3)) None ''m'' 7 doubleOrder = (None, doubleOrder)"
    using C10_recordFill_amended [of "Fin (- 3)" None "''m''" 7 doubleOrder] by simp
  have e: "fst (recordFill (Fin 2) None ''m'' 7 doubleOrder) \<noteq> None
           \<and> filled (snd (recordFill (Fin 2) None ''m'' 7 doubleOrder)) = filled doubleOrder + Fin 2"
    using C10_recordFill_amended [of "Fin 2" None "''m''" 7 doubleOrder] by auto
  have f: "filled (snd (recordFill PosInf None ''m'' 7 doubleOrder)) = filled doubleOrder + PosInf"
    using C10_recordFill_amended [of PosInf None "''m''" 7 doubleOrder] by simp
  have g: "filled doubleOrder = Fin 0"
    by (simp add: doubleOrder_def newOrder_def zero_double_def)
  have r: "Fin 0 + Fin 2 = Fin 2" by code_simp
  from a b c d e f g r show ?thesis by simp
qed

section \<open>The unit value of the oracle\<close>

lemma seedOf_nonempty: "seedOf E meta fb \<noteq> []"
  by (simp add: seedOf_def Let_def)

lemma deterministicMultiplier_code_m:
  "deterministicMultiplier d E meta fb = code_m d E meta fb"
  by (simp add: deterministicMultiplier_def code_m_def code_f_def symbolFactorOf_def
        seedOf_nonempty Let_def)

lemma symbolFactorOf_ge_1: "1 \<le> symbolFactorOf E meta"
  by (simp add: symbolFactorOf_def)

lemma code_m_pos: "0 < code_m d E meta fb"
proof -
  have "0 \<le> code_f d E meta fb"
    unfolding code_f_def by (rule divide_nonneg_nonneg) (rule of_nat_0_le_iff, simp)
  then have "0 < 1 / 2 + (3 / 2) * code_f d E meta fb" by (simp add: add_pos_nonneg)
  moreover have "0 < symbolFactorOf E meta" using symbolFactorOf_ge_1 [of E meta] by linarith
  ultimately show ?thesis unfolding code_m_def by (rule mult_pos_pos)
qed

lemma parseSupply_code_base:
  "(case parseSupply E meta of None \<Rightarrow> 1 | Some supply \<Rightarrow> 1 / supply) = code_base E meta"
  by (auto simp: parseSupply_def code_base_def supplyOf_def Let_def
           split: option.splits double.splits)

lemma parseSupply_pos: "parseSupply E meta = Some v \<Longrightarrow> 0 < v"
  by (auto simp: parseSupply_def Let_def split: option.splits double.splits if_splits)

lemma code_base_pos: "0 < code_base E meta"
  by (auto simp: code_base_def Let_def split: option.splits)

lemma formatUnits_thousand: "ethersFormatUnits 1000000000000000000000 18 = Some (Fin 1000)"
  by code_simp

text \<open>
  Claim C6, as stated: the unit value of every token equals
  \<open>clamp(m \<times> base, 10^-12, 10^12)\<close> with \<open>base = 1/totalSupply\<close> and
  \<open>m = (0.5 + f) \<times> (1 + (len(symbol) mod 5) \<times> 0.05)\<close>, \<open>f = hi32 / 2^32\<close>.
  It fails for a token without supply whose digest starts with \<open>0x80000000\<close>, and, whatever
  the digest, for a token of 18 decimals with a supply of 1000 tokens.
\<close>

theorem C6_unit_value_counterexample:
  "deriveUnitValue (\<lambda>seed. 0x80000000) testEnv plainToken ''tok''
     \<noteq> spec_uv (\<lambda>seed. 0x80000000) testEnv plainToken ''tok''
   \<and> deriveUnitValue (\<lambda>seed. 0) testEnv suppliedToken ''tok''
     \<noteq> spec_uv (\<lambda>seed. 0) testEnv suppliedToken ''tok''"
  by (simp add: deriveUnitValue_def spec_uv_def deterministicMultiplier_def spec_m_def spec_f_def
      spec_base_def parseSupply_def clamp_def plainToken_def suppliedToken_def
      seedOf_def upperSymbol_def Let_def testEnv_def asciiUpperCase_def formatUnits_thousand)

text \<open>
  Claim C6, amended: the unit value of every token equals
  \<open>clamp(m \<times> base, 10^-12, 10^12)\<close> where
  \<open>m = (0.5 + 1.5 f) \<times> (1 + (len(SYMBOL) mod 5) \<times> 0.05)\<close> with
  \<open>f = hi32(SHA-256(addr|SYMBOL|NAME)) / (2^32 - 1)\<close> in \<open>[0, 1]\<close>, SYMBOL and NAME being
  the symbol and the name in upper case, and \<open>base = 1/s\<close>, \<open>s\<close> being the number read from
  \<open>ethers.formatUnits(totalSupply, decimals)\<close> (the supply in whole tokens; 18 decimals
  unless the metadata holds an integer), when the total supply is known and positive,
  formatUnits returns and \<open>s\<close> is finite and positive, and \<open>base = 1\<close> otherwise.
\<close>

theorem C6_unit_value_amended: "deriveUnitValue d E meta fb = code_uv d E meta fb"
proof -
  have pos: "0 < code_base E meta * code_m d E meta fb"
    using code_base_pos code_m_pos by (rule mult_pos_pos)
  have i1: "(case (case parseSupply E meta of None \<Rightarrow> None
                   | Some supply \<Rightarrow> if supply > 0 then Some (1 / supply) else None) of
               None \<Rightarrow> 1 | Some v \<Rightarrow> if \<not> (v > 0) then 1 else v) = code_base E meta"
    using parseSupply_code_base [of E meta] parseSupply_pos [of E meta] code_base_pos [of E meta]
    by (cases "parseSupply E meta") auto
  show ?thesis
    unfolding deriveUnitValue_def Let_def i1 deterministicMultiplier_code_m code_uv_def clamp_def
    using pos by (auto simp: mult.commute max_def min_def)
qed

section \<open>The order book handed to the HTTP layer\<close>

text \<open>
  Claim C8, as stated: the snapshot that the order service returns contains the seven
  collections of the book, the market queues among them. After a market buy has come to
  rest, the engine's book holds it in \<open>marketBuy\<close>, and the object returned by the service
  has five keys, none of them \<open>marketBuy\<close> or \<open>marketSell\<close>.
\<close>

theorem C8_order_book_snapshot_counterexample:
  "map_option (listAt ''aaa-bbb'' LMarketBuy) marketBuyResting = Some [''bm'']
   \<and> map_option (keysAt ''AAA'' ''BBB'') marketBuyResting
       = Some [''buy'', ''sell'', ''stopLoss'', ''stopLimit'', ''trades'']"
  by code_simp

text \<open>
  Claim C8, amended: for every pair the snapshot that the order service returns contains
  five collections of the book, \<open>buy\<close>, \<open>sell\<close>, \<open>stopLoss\<close>, \<open>stopLimit\<close> and \<open>trades\<close>,
  each with the content of the engine's list; the queues \<open>marketBuy\<close> and \<open>marketSell\<close>
  are not in it.
\<close>

theorem C8_order_book_snapshot_amended:
  "map fst (serviceGetOrderBook s b q) = [''buy'', ''sell'', ''stopLoss'', ''stopLimit'', ''trades'']
   \<and> map snd (serviceGetOrderBook s b q)
       = [Orders (List.map_filter (orders s) (buy (getOrderBook s b q))),
          Orders (List.map_filter (orders s) (sell (getOrderBook s b q))),
          Orders (List.map_filter (orders s) (stopLoss (getOrderBook s b q))),
          Orders (List.map_filter (orders s) (stopLimit (getOrderBook s b q))),
          Trades (bookTrades (getOrderBook s b q))]
   \<and> ''marketBuy'' \<notin> set (map fst (serviceGetOrderBook s b q))
   \<and> ''marketSell'' \<notin> set (map fst (serviceGetOrderBook s b q))"
  by (simp add: serviceGetOrderBook_def serializeOrderBook_def)

section \<open>Cancellation\<close>

text \<open>
  Claim C1: \<open>cancelOrder(order)\<close> removes an order that rests in its pair's book from
  every list of the book, the market queues included, and the record becomes CANCELLED
  with \<open>metadata.cancelReason\<close> set. The code at a market buy that has come to rest: the
  cancel sets status and reason and leaves the id in \<open>marketBuy\<close>, where the next sell
  limit is matched against the cancelled order and fills it.
\<close>

theorem C1_cancel_leaves_market_queue:
  "map_option (listAt ''aaa-bbb'' LMarketBuy) marketBuyResting = Some [''bm'']
   \<and> map_option (statusAt ''bm'') marketBuyCancelled = Some (Some CANCELLED)
   \<and> map_option (cancelReasonAt ''bm'') marketBuyCancelled = Some (Some ''USER_CANCELLED'')
   \<and> map_option (listAt ''aaa-bbb'' LMarketBuy) marketBuyCancelled = Some [''bm'']
   \<and> map_option (statusAt ''bm'') (thenAdd marketBuyCancelled 5 sellLimitFive) = Some (Some FILLED)
   \<and> map_option (filledAt ''bm'') (thenAdd marketBuyCancelled 5 sellLimitFive) = Some (Some 5)"
  by code_simp

section \<open>Batch execution\<close>

text \<open>
  Claim C2: when \<open>executeBatchTrades\<close> raises a batch error, no order of the list has a
  fill applied. The code at the ring of a resting sell \<open>A\<close> (10 at 2) and a queued
  all-or-nothing stop-limit buy \<open>B\<close> (20 at 2): the leg of \<open>A\<close> is filled, and the check
  of the leg of \<open>B\<close> then throws.
\<close>

theorem C2_batch_error_after_fill:
  "map_option (statusAt ''A'') batchState = Some (Some PENDING)
   \<and> map_option (filledAt ''A'') batchState = Some (Some 0)
   \<and> map_option (statusAt ''B'') batchState = Some (Some PENDING)
   \<and> map_option (errorOf \<circ> fst) batchFailure = Some (Some PartialAllOrNothing)
   \<and> map_option (statusAt ''A'' \<circ> snd) batchFailure = Some (Some FILLED)
   \<and> map_option (filledAt ''A'' \<circ> snd) batchFailure = Some (Some 10)
   \<and> map_option (executionsAt ''A'' \<circ> snd) batchFailure = Some (Some 1)
   \<and> map_option (filledAt ''B'' \<circ> snd) batchFailure = Some (Some 0)"
  by code_simp

section \<open>Frame lemmas of the primitive state changes\<close>

lemma bookOf_getOrCreateOrderBook [simp]: "bookOf (getOrCreateOrderBook k s) k' = bookOf s k'"
  by (auto simp: bookOf_def getOrCreateOrderBook_def split: option.splits)

lemma orders_getOrCreateOrderBook [simp]: "orders (getOrCreateOrderBook k s) = orders s"
  by (auto simp: getOrCreateOrderBook_def split: option.splits)

lemma marketPrices_getOrCreateOrderBook [simp]:
  "marketPrices (getOrCreateOrderBook k s) = marketPrices s"
  by (auto simp: getOrCreateOrderBook_def split: option.splits)

lemma marketPriceMeta_getOrCreateOrderBook [simp]:
  "marketPriceMeta (getOrCreateOrderBook k s) = marketPriceMeta s"
  by (auto simp: getOrCreateOrderBook_def split: option.splits)

lemma pairStates_getOrCreateOrderBook [simp]:
  "pairStates (getOrCreateOrderBook k s) = pairStates s"
  by (auto simp: getOrCreateOrderBook_def split: option.splits)

lemma listOf_getOrCreateOrderBook [simp]: "listOf (getOrCreateOrderBook k s) k' nm = listOf s k' nm"
  by (simp add: listOf_def)

lemma bookOf_orders_update [simp]: "bookOf (s\<lparr> orders := x \<rparr>) k = bookOf s k"
  by (simp add: bookOf_def)

lemma listOf_orders_update [simp]: "listOf (s\<lparr> orders := x \<rparr>) k nm = listOf s k nm"
  by (simp add: listOf_def)

lemma orders_putList [simp]: "orders (putList k nm xs s) = orders s"
  by (simp add: putList_def)

lemma marketPrices_putList [simp]: "marketPrices (putList k nm xs s) = marketPrices s"
  by (simp add: putList_def)

lemma marketPriceMeta_putList [simp]: "marketPriceMeta (putList k nm xs s) = marketPriceMeta s"
  by (simp add: putList_def)

lemma pairStates_putList [simp]: "pairStates (putList k nm xs s) = pairStates s"
  by (simp add: putList_def)


lemma bookTrades_setList [simp]: "bookTrades (setList nm xs b) = bookTrades b"
  by (cases nm) simp_all


lemma bookTrades_putList [simp]: "bookTrades (bookOf (putList k nm xs s) k') = bookTrades (bookOf s k')"
  by (simp add: putList_def bookOf_def)

lemma orderBooks_updOrder [simp]: "orderBooks (updOrder i f s) = orderBooks s"
  by (simp add: updOrder_def split: option.splits)

lemma bookOf_updOrder [simp]: "bookOf (updOrder i f s) k = bookOf s k"
  by (simp add: bookOf_def)

lemma listOf_updOrder [simp]: "listOf (updOrder i f s) k nm = listOf s k nm"
  by (simp add: listOf_def)

lemma marketPrices_updOrder [simp]: "marketPrices (updOrder i f s) = marketPrices s"
  by (simp add: updOrder_def split: option.splits)

lemma marketPriceMeta_updOrder [simp]: "marketPriceMeta (updOrder i f s) = marketPriceMeta s"
  by (simp add: updOrder_def split: option.splits)

lemma pairStates_updOrder [simp]: "pairStates (updOrder i f s) = pairStates s"
  by (simp add: updOrder_def split: option.splits)


lemma orders_recordTrade [simp]: "orders (recordTrade k t s) = orders s"
  by (simp add: recordTrade_def Let_def)

lemma marketPrices_recordTrade [simp]: "marketPrices (recordTrade k t s) = marketPrices s"
  by (simp add: recordTrade_def Let_def)

lemma marketPriceMeta_recordTrade [simp]: "marketPriceMeta (recordTrade k t s) = marketPriceMeta s"
  by (simp add: recordTrade_def Let_def)

lemma pairStates_recordTrade [simp]: "pairStates (recordTrade k t s) = pairStates s"
  by (simp add: recordTrade_def Let_def)

lemma bookOf_recordTrade:
  "bookOf (recordTrade k t s) k' =
     (if k' = k
      then (bookOf s k)\<lparr> bookTrades := (if length (bookTrades (bookOf s k) @ [t]) > 200
                                           then tl (bookTrades (bookOf s k) @ [t])
                                           else bookTrades (bookOf s k) @ [t]) \<rparr>
      else bookOf s k')"
  by (auto simp: recordTrade_def Let_def bookOf_def getOrCreateOrderBook_def split: option.splits)

lemma listOf_recordTrade [simp]: "listOf (recordTrade k t s) k' nm = listOf s k' nm"
  by (cases nm) (simp_all add: listOf_def bookOf_recordTrade)

lemma orders_ensurePairState:
  "ensurePairState E b q p s = Some (d, st, s') \<Longrightarrow>
     orders s' = orders s \<and> orderBooks s' = orderBooks s \<and> marketPrices s' = marketPrices s
     \<and> marketPriceMeta s' = marketPriceMeta s"
  by (auto simp: ensurePairState_def Let_def split: option.splits)

lemma frame_registerTrade:
  "orders (registerTrade E b q p ba qa sd src s) = orders s
   \<and> orderBooks (registerTrade E b q p ba qa sd src s) = orderBooks s
   \<and> marketPrices (registerTrade E b q p ba qa sd src s) = marketPrices s
   \<and> marketPriceMeta (registerTrade E b q p ba qa sd src s) = marketPriceMeta s"
  unfolding registerTrade_def Let_def
  by (auto split: option.splits prod.splits dest: orders_ensurePairState)

lemma orders_registerTrade [simp]: "orders (registerTrade E b q p ba qa sd src s) = orders s"
  using frame_registerTrade by blast

lemma orderBooks_registerTrade [simp]:
  "orderBooks (registerTrade E b q p ba qa sd src s) = orderBooks s"
  using frame_registerTrade by blast

lemma marketPrices_registerTrade [simp]:
  "marketPrices (registerTrade E b q p ba qa sd src s) = marketPrices s"
  using frame_registerTrade by blast

lemma marketPriceMeta_registerTrade [simp]:
  "marketPriceMeta (registerTrade E b q p ba qa sd src s) = marketPriceMeta s"
  using frame_registerTrade by blast

lemma bookOf_registerTrade [simp]: "bookOf (registerTrade E b q p ba qa sd src s) k = bookOf s k"
  by (simp add: bookOf_def)

lemma listOf_registerTrade [simp]:
  "listOf (registerTrade E b q p ba qa sd src s) k nm = listOf s k nm"
  by (simp add: listOf_def)

lemma orders_setMarketPriceEntry [simp]: "orders (setMarketPriceEntry E k p m s) = orders s"
  by (simp add: setMarketPriceEntry_def Let_def)

lemma orderBooks_setMarketPriceEntry [simp]:
  "orderBooks (setMarketPriceEntry E k p m s) = orderBooks s"
  by (simp add: setMarketPriceEntry_def Let_def)

lemma pairStates_setMarketPriceEntry [simp]:
  "pairStates (setMarketPriceEntry E k p m s) = pairStates s"
  by (simp add: setMarketPriceEntry_def Let_def)



section \<open>Stop price validation\<close>


lemma getPairKey_nonempty [simp]: "getPairKey b q \<noteq> []"
  by (simp add: getPairKey_def)





section \<open>Post-only orders\<close>





lemma marketPrices_restOnBook [simp]: "marketPrices (restOnBook k i nm sd s) = marketPrices s"
  by (simp add: restOnBook_def Let_def)

lemma bookTrades_restOnBook [simp]:
  "bookTrades (bookOf (restOnBook k i nm sd s) k') = bookTrades (bookOf s k')"
  by (simp add: restOnBook_def Let_def)





section \<open>The inverse market price\<close>


subsection \<open>Pair keys\<close>






















section \<open>The guard against re-entrant stop triggering\<close>








end
